theory Spec2Isabelle
  imports Main "HOL-Library.Word"
begin

section \<open>Krishi Sakhi: the chat and voice-log pipeline of \<^verbatim>\<open>krishisakhi_api\<close>\<close>

text \<open>
  A shallow embedding of the request pipeline of \<^verbatim>\<open>src/krishisakhi_api\<close>:
  \<^verbatim>\<open>utils/translation_utils.py\<close>, \<^verbatim>\<open>utils/rag_utils.py\<close>, \<^verbatim>\<open>utils/chatbot_utils.py\<close>,
  \<^verbatim>\<open>utils/ml_utils.py\<close>, \<^verbatim>\<open>crud.py\<close> and the endpoints of \<^verbatim>\<open>main.py\<close>.

  Conventions.
  \<^item> A Python \<^verbatim>\<open>str\<close> is a \<^typ>\<open>string\<close>: the list of the bytes of its UTF-8 encoding.
    Equality, emptiness, concatenation and \<^verbatim>\<open>join\<close> are the same on both sides of that
    encoding; \<^verbatim>\<open>strip\<close> and \<^verbatim>\<open>replace\<close> are written on the encoding.
  \<^item> An exception is the \<open>Inl\<close> of a sum; a function whose body is wrapped in a catch-all
    handler returns a plain value.
  \<^item> Every collaborator outside the repository (the generative models, the embedding
    service, the FAISS index, the image and audio decoders, the speech service, the HTTP
    backend, the clock) is a field of the record \<open>services\<close>; a collaborator that raises
    gives \<open>Inl\<close> of the message of its exception. The theorems hold for every value of
    these fields.
  \<^item> Every function returns, beside its result, the list of the events it caused, in
    order: the calls to collaborators and the entries into \<^verbatim>\<open>translate_text\<close>.
\<close>

subsection \<open>Values, exceptions, events\<close>

type_synonym bytes = "8 word list"

text \<open>
  A decoded JSON document, as \<^verbatim>\<open>response.json()\<close> returns it, and the Python dicts that the
  code builds itself. \<open>JNull\<close> is Python's \<^verbatim>\<open>None\<close>; \<open>JFloat m e\<close> is the float written
  \<open>m\<close> times ten to the power \<open>e\<close>.
\<close>

datatype json =
    JNull
  | JBool bool
  | JInt int
  | JFloat int int
  | JStr string
  | JList "json list"
  | JDict "(string \<times> json) list"

text \<open>Python's truth value of such a value (\<^verbatim>\<open>if not profile\<close>, \<^verbatim>\<open>if farms and ...\<close>).\<close>

fun truthy :: "json \<Rightarrow> bool" where
  "truthy JNull = False"
| "truthy (JBool b) = b"
| "truthy (JInt n) = (n \<noteq> 0)"
| "truthy (JFloat m e) = (m \<noteq> 0)"
| "truthy (JStr s) = (s \<noteq> [])"
| "truthy (JList xs) = (xs \<noteq> [])"
| "truthy (JDict kvs) = (kvs \<noteq> [])"

text \<open>
  The exceptions of the pipeline. \<open>ServiceError m\<close> is any exception raised by a
  collaborator, with \<^verbatim>\<open>str(e)\<close> equal to \<open>m\<close>; \<open>RequestException\<close> is the class that
  \<^verbatim>\<open>crud._make_api_request\<close> catches; \<open>HTTPException status detail\<close> is FastAPI's.
\<close>

datatype exn =
    IndexError
  | KeyError string
  | AttributeError string
  | TypeError string
  | ValueError string
  | ValidationError string
  | ServiceError string
  | RequestException string
  | HTTPException nat string

record http_request =
  http_method :: string
  http_url :: string
  http_json :: "json option"
  http_timeout :: "nat option"

text \<open>A reply: the status code and the decoded body, \<open>None\<close> when the body is not JSON.\<close>

record http_response =
  status_code :: nat
  body :: "json option"

text \<open>What \<^verbatim>\<open>AudioSegment.from_file\<close> finds, and the WAV bytes that \<^verbatim>\<open>export\<close> writes.\<close>

record audio_segment =
  frame_rate :: nat
  channels :: nat
  wav_content :: bytes

text \<open>\<^verbatim>\<open>speech.RecognitionConfig\<close>, as \<^verbatim>\<open>transcribe_audio_with_google\<close> fills it.\<close>

record recognition_config =
  encoding :: string
  sample_rate_hertz :: nat
  language_code :: string
  audio_channel_count :: nat

text \<open>An aware \<^verbatim>\<open>datetime\<close> in UTC.\<close>

record datetime =
  dt_year :: nat
  dt_month :: nat
  dt_day :: nat
  dt_hour :: nat
  dt_minute :: nat
  dt_second :: nat
  dt_microsecond :: nat

datatype event =
    Translate_invoked string string string
  | Translation_model_call string
  | Llm_call string
  | Llm_image_call string
  | Image_open_call bytes
  | Embed_call "string list"
  | Search_call int
  | Structured_llm_call string
  | Weather_call json
  | Audio_decode_call bytes
  | Speech_recognize_call recognition_config
  | Http_call http_request
  | Clock_read nat

subsection \<open>The collaborators and the process state\<close>

text \<open>
  \<^item> \<open>translation_model\<close>: \<^verbatim>\<open>translation_model.generate_content(prompt).text\<close>;
  \<^item> \<open>llm_model\<close>: \<^verbatim>\<open>llm_model.generate_content(prompt).text\<close>;
  \<^item> \<open>llm_model_image\<close>: \<^verbatim>\<open>llm_model.generate_content([prompt, image]).text\<close>;
  \<^item> \<open>image_open\<close>: \<^verbatim>\<open>Image.open(io.BytesIO(image_bytes))\<close>;
  \<^item> \<open>embed_content\<close>: \<^verbatim>\<open>genai.embed_content\<close> and the conversion of its result to an array;
  \<^item> \<open>index_search\<close>: \<^verbatim>\<open>index.search(query_embedding, k)\<close>, the array of positions with one
    row for each query vector (the distances are never used);
  \<^item> \<open>structured_llm\<close>: \<^verbatim>\<open>structured_llm.invoke(prompt)\<close> of \<^verbatim>\<open>ml_utils.py\<close>, as a dict;
  \<^item> \<open>audio_from_file\<close>: \<^verbatim>\<open>AudioSegment.from_file\<close> and the export to WAV;
  \<^item> \<open>speech_recognize\<close>: \<^verbatim>\<open>client.recognize\<close>, the first alternative's transcript of every
    result;
  \<^item> \<open>http_backend\<close>: \<^verbatim>\<open>requests.get\<close> and \<^verbatim>\<open>requests.post\<close>; \<open>Inl\<close> is a
    \<^verbatim>\<open>RequestException\<close> (connection refused, timed out);
  \<^item> \<open>now_utc\<close>: \<^verbatim>\<open>datetime.now(timezone.utc)\<close>, as a function of the number of earlier
    readings in the request;
  \<^item> \<open>api_base_url\<close>: \<^verbatim>\<open>config.API_BASE_URL\<close>, read from the environment;
  \<^item> \<open>py_repr\<close>: Python's \<^verbatim>\<open>str\<close> of a value that is not itself a \<^verbatim>\<open>str\<close>, as an f-string
    renders it.
\<close>

text \<open>
  Modelled from the spec: \<^verbatim>\<open>utils/api_utils.fetch_weather\<close>, which \<^verbatim>\<open>main.py\<close> imports and
  which is not among the sources. It is the field \<open>fetch_weather\<close>: given the village it
  gives a weather document or raises.
\<close>

record ('img, 'vec, 'idx) services =
  translation_model :: "string \<Rightarrow> string + string"
  llm_model :: "string \<Rightarrow> string + string"
  llm_model_image :: "string \<Rightarrow> 'img \<Rightarrow> string + string"
  image_open :: "bytes \<Rightarrow> string + 'img"
  embed_content :: "string list \<Rightarrow> string + 'vec"
  index_search :: "'idx \<Rightarrow> 'vec \<Rightarrow> int \<Rightarrow> string + int list list"
  structured_llm :: "string \<Rightarrow> string + json"
  fetch_weather :: "json \<Rightarrow> string + json"
  audio_from_file :: "bytes \<Rightarrow> string + audio_segment"
  speech_recognize :: "recognition_config \<Rightarrow> bytes \<Rightarrow> string + string list"
  http_backend :: "http_request \<Rightarrow> string + http_response"
  now_utc :: "nat \<Rightarrow> datetime"
  api_base_url :: string
  py_repr :: "json \<Rightarrow> string"

text \<open>
  \<^verbatim>\<open>app_state\<close> of \<^verbatim>\<open>main.py\<close>, as \<^verbatim>\<open>lifespan\<close> leaves it: each of the keys
  \<^verbatim>\<open>speech_client\<close>, \<^verbatim>\<open>faiss_index\<close> and \<^verbatim>\<open>docs\<close> is present or not.
\<close>

record 'idx app_state =
  loaded_speech_client :: bool
  loaded_faiss_index :: "'idx option"
  loaded_docs :: "string list option"

subsection \<open>Results with a trace\<close>

type_synonym 'a run = "(exn + 'a) \<times> event list"

definition succeed :: "'a \<Rightarrow> 'a run" where
  "succeed x = (Inr x, [])"

definition raise :: "exn \<Rightarrow> 'a run" where
  "raise e = (Inl e, [])"

text \<open>A function that cannot raise, used where exceptions pass.\<close>

definition always :: "'a \<times> event list \<Rightarrow> 'a run" where
  "always m = (case m of (x, t) \<Rightarrow> (Inr x, t))"

text \<open>Sequencing: an exception ends the run, the traces are appended.\<close>

definition then_do :: "'a run \<Rightarrow> ('a \<Rightarrow> 'b run) \<Rightarrow> 'b run" where
  "then_do m f =
     (case m of
        (Inl e, t) \<Rightarrow> (Inl e, t)
      | (Inr x, t) \<Rightarrow> (case f x of (r, t') \<Rightarrow> (r, t @ t')))"

subsection \<open>Python built-ins used by the pipeline\<close>

text \<open>\<^verbatim>\<open>xs[i]\<close>: a negative index counts from the end, an index out of range raises.\<close>

definition py_index :: "'a list \<Rightarrow> int \<Rightarrow> exn + 'a" where
  "py_index xs i =
     (if 0 \<le> i \<and> i < int (length xs) then Inr (xs ! nat i)
      else if i < 0 \<and> - int (length xs) \<le> i then Inr (xs ! nat (int (length xs) + i))
      else Inl IndexError)"

text \<open>\<^verbatim>\<open>sep.join(xs)\<close>.\<close>

fun py_join :: "string \<Rightarrow> string list \<Rightarrow> string" where
  "py_join sep [] = []"
| "py_join sep [x] = x"
| "py_join sep (x # y # ys) = x @ sep @ py_join sep (y # ys)"

text \<open>\<^verbatim>\<open>d.get(key, default)\<close> on the items of a dict.\<close>

definition dict_get :: "(string \<times> 'v) list \<Rightarrow> string \<Rightarrow> 'v \<Rightarrow> 'v" where
  "dict_get d key dflt = (case map_of d key of None \<Rightarrow> dflt | Some v \<Rightarrow> v)"

text \<open>\<^verbatim>\<open>d[key] = v\<close>: the value of a present key is replaced in place, a new key goes last.\<close>

fun dict_set :: "(string \<times> 'v) list \<Rightarrow> string \<Rightarrow> 'v \<Rightarrow> (string \<times> 'v) list" where
  "dict_set [] key v = [(key, v)]"
| "dict_set ((k, w) # d) key v = (if k = key then (k, v) # d else (k, w) # dict_set d key v)"

text \<open>The rendering of a value inside an f-string: a \<^verbatim>\<open>str\<close> is copied as it is.\<close>

definition py_str :: "('img, 'vec, 'idx) services \<Rightarrow> json \<Rightarrow> string" where
  "py_str sv v = (case v of JStr s \<Rightarrow> s | _ \<Rightarrow> py_repr sv v)"

text \<open>
  \<^verbatim>\<open>s.upper()\<close>, exact wherever the result is ASCII. Beside the letters a to z, ten code
  points have an upper-case form made of ASCII letters: U+00DF (\<^verbatim>\<open>SS\<close>), U+0131 (\<^verbatim>\<open>I\<close>),
  U+017F (\<^verbatim>\<open>S\<close>) and the ligatures U+FB00 to U+FB06 (\<^verbatim>\<open>FF\<close>, \<^verbatim>\<open>FI\<close>, \<^verbatim>\<open>FL\<close>, \<^verbatim>\<open>FFI\<close>,
  \<^verbatim>\<open>FFL\<close>, \<^verbatim>\<open>ST\<close>, \<^verbatim>\<open>ST\<close>); they are read in their UTF-8 encoding, whose first bytes
  occur nowhere else in a well-formed string. The bytes of every other character are kept:
  its upper-case form is not ASCII either, so a comparison with an ASCII literal, the only
  use of \<open>upper\<close>, gives what Python gives.
\<close>

definition upper_char :: "char \<Rightarrow> char" where
  "upper_char c =
     (let n = (of_char c :: nat) in if 97 \<le> n \<and> n \<le> 122 then char_of (n - 32) else c)"

definition upper_two :: "char \<Rightarrow> char \<Rightarrow> string option" where
  "upper_two a b =
     (if a = CHR 0xC3 \<and> b = CHR 0x9F then Some ''SS''
      else if a = CHR 0xC4 \<and> b = CHR 0xB1 then Some ''I''
      else if a = CHR 0xC5 \<and> b = CHR 0xBF then Some ''S''
      else None)"

definition upper_three :: "char \<Rightarrow> char \<Rightarrow> char \<Rightarrow> string option" where
  "upper_three a b c =
     (if a = CHR 0xEF \<and> b = CHR 0xAC then
        (if c = CHR 0x80 then Some ''FF''
         else if c = CHR 0x81 then Some ''FI''
         else if c = CHR 0x82 then Some ''FL''
         else if c = CHR 0x83 then Some ''FFI''
         else if c = CHR 0x84 then Some ''FFL''
         else if c = CHR 0x85 \<or> c = CHR 0x86 then Some ''ST''
         else None)
      else None)"

fun upper :: "string \<Rightarrow> string" where
  "upper (a # b # c # rest) =
     (case upper_two a b of
        Some u \<Rightarrow> u @ upper (c # rest)
      | None \<Rightarrow>
          (case upper_three a b c of
             Some u \<Rightarrow> u @ upper rest
           | None \<Rightarrow> upper_char a # upper (b # c # rest)))"
| "upper [a, b] =
     (case upper_two a b of Some u \<Rightarrow> u | None \<Rightarrow> [upper_char a, upper_char b])"
| "upper [a] = [upper_char a]"
| "upper [] = []"

declare upper.simps [simp del]

text \<open>
  The code points for which \<^verbatim>\<open>str.isspace\<close> holds, each as its UTF-8 encoding:
  U+0009..U+000D, U+001C..U+0020, U+0085, U+00A0, U+1680, U+2000..U+200A, U+2028, U+2029,
  U+202F, U+205F, U+3000.
\<close>

definition whitespace :: "string list" where
  "whitespace =
     [[CHR 0x09], [CHR 0x0A], [CHR 0x0B], [CHR 0x0C], [CHR 0x0D],
      [CHR 0x1C], [CHR 0x1D], [CHR 0x1E], [CHR 0x1F], [CHR 0x20],
      [CHR 0xC2, CHR 0x85], [CHR 0xC2, CHR 0xA0], [CHR 0xE1, CHR 0x9A, CHR 0x80],
      [CHR 0xE2, CHR 0x80, CHR 0x80], [CHR 0xE2, CHR 0x80, CHR 0x81],
      [CHR 0xE2, CHR 0x80, CHR 0x82], [CHR 0xE2, CHR 0x80, CHR 0x83],
      [CHR 0xE2, CHR 0x80, CHR 0x84], [CHR 0xE2, CHR 0x80, CHR 0x85],
      [CHR 0xE2, CHR 0x80, CHR 0x86], [CHR 0xE2, CHR 0x80, CHR 0x87],
      [CHR 0xE2, CHR 0x80, CHR 0x88], [CHR 0xE2, CHR 0x80, CHR 0x89],
      [CHR 0xE2, CHR 0x80, CHR 0x8A], [CHR 0xE2, CHR 0x80, CHR 0xA8],
      [CHR 0xE2, CHR 0x80, CHR 0xA9], [CHR 0xE2, CHR 0x80, CHR 0xAF],
      [CHR 0xE2, CHR 0x81, CHR 0x9F], [CHR 0xE3, CHR 0x80, CHR 0x80]]"

text \<open>
  Dropping leading occurrences of the given encodings; an empty encoding never matches,
  and the list above has none.
\<close>

function lstrip_with :: "string list \<Rightarrow> string \<Rightarrow> string" where
  "lstrip_with ws s =
     (case find (\<lambda>w. w \<noteq> [] \<and> take (length w) s = w) ws of
        None \<Rightarrow> s
      | Some w \<Rightarrow> lstrip_with ws (drop (length w) s))"
  by pat_completeness auto
termination
proof (relation "measure (\<lambda>(ws, s). length s)")
  show "wf (measure (\<lambda>(ws, s). length s))" by simp
next
  fix ws :: "string list" and s w :: string
  assume "find (\<lambda>w. w \<noteq> [] \<and> take (length w) s = w) ws = Some w"
  then have "w \<noteq> []" and "take (length w) s = w"
    by (auto simp: find_Some_iff)
  then have "s \<noteq> []" and "0 < length w" by auto
  then show "((ws, drop (length w) s), (ws, s)) \<in> measure (\<lambda>(ws, s). length s)"
    by simp
qed

text \<open>\<^verbatim>\<open>s.strip()\<close>: white space removed at both ends.\<close>

definition strip :: "string \<Rightarrow> string" where
  "strip s = rev (lstrip_with (map rev whitespace) (rev (lstrip_with whitespace s)))"

text \<open>
  \<^verbatim>\<open>s.replace(old, new)\<close> for a non-empty \<open>old\<close> (both uses pass a literal): the occurrences
  are replaced from the left, without overlap.
\<close>

function py_replace :: "string \<Rightarrow> string \<Rightarrow> string \<Rightarrow> string" where
  "py_replace old new [] = []"
| "py_replace old new (c # cs) =
     (if old \<noteq> [] \<and> take (length old) (c # cs) = old
      then new @ py_replace old new (drop (length old) (c # cs))
      else c # py_replace old new cs)"
  by pat_completeness auto
termination
  by (relation "measure (\<lambda>(old, new, s). length s)") auto

subsection \<open>\<^verbatim>\<open>datetime\<close>\<close>

definition digit_char :: "nat \<Rightarrow> char" where
  "digit_char d = char_of (48 + d)"

definition digits2 :: "nat \<Rightarrow> string" where
  "digits2 n = [digit_char (n div 10 mod 10), digit_char (n mod 10)]"

definition digits4 :: "nat \<Rightarrow> string" where
  "digits4 n = [digit_char (n div 1000 mod 10), digit_char (n div 100 mod 10),
                digit_char (n div 10 mod 10), digit_char (n mod 10)]"

definition digits6 :: "nat \<Rightarrow> string" where
  "digits6 n = [digit_char (n div 100000 mod 10), digit_char (n div 10000 mod 10),
                digit_char (n div 1000 mod 10), digit_char (n div 100 mod 10),
                digit_char (n div 10 mod 10), digit_char (n mod 10)]"

text \<open>
  \<^verbatim>\<open>dt.isoformat()\<close> of an aware UTC datetime: \<^verbatim>\<open>YYYY-MM-DDTHH:MM:SS+00:00\<close>, with
  \<^verbatim>\<open>.ffffff\<close> after the seconds when the microseconds are not zero.
\<close>

definition isoformat :: "datetime \<Rightarrow> string" where
  "isoformat dt =
     digits4 (dt_year dt) @ ''-'' @ digits2 (dt_month dt) @ ''-'' @ digits2 (dt_day dt)
     @ ''T'' @ digits2 (dt_hour dt) @ '':'' @ digits2 (dt_minute dt) @ '':''
     @ digits2 (dt_second dt)
     @ (if dt_microsecond dt = 0 then [] else ''.'' @ digits6 (dt_microsecond dt))
     @ ''+00:00''"

definition digit_value :: "char \<Rightarrow> nat option" where
  "digit_value c =
     (let n = (of_char c :: nat) in if 48 \<le> n \<and> n \<le> 57 then Some (n - 48) else None)"

fun decimal_from :: "nat \<Rightarrow> string \<Rightarrow> nat option" where
  "decimal_from acc [] = Some acc"
| "decimal_from acc (c # cs) =
     (case digit_value c of None \<Rightarrow> None | Some d \<Rightarrow> decimal_from (10 * acc + d) cs)"

definition decimal :: "string \<Rightarrow> nat option" where
  "decimal s = decimal_from 0 s"

definition is_leap :: "nat \<Rightarrow> bool" where
  "is_leap y = (y mod 4 = 0 \<and> (y mod 100 \<noteq> 0 \<or> y mod 400 = 0))"

definition days_in_month :: "nat \<Rightarrow> nat \<Rightarrow> nat" where
  "days_in_month y m =
     (if m = 2 then (if is_leap y then 29 else 28)
      else if m = 4 \<or> m = 6 \<or> m = 9 \<or> m = 11 then 30 else 31)"

text \<open>The value checks of the \<^verbatim>\<open>datetime\<close> constructor.\<close>

definition valid_datetime :: "datetime \<Rightarrow> bool" where
  "valid_datetime dt =
     (1 \<le> dt_year dt \<and> dt_year dt \<le> 9999 \<and> 1 \<le> dt_month dt \<and> dt_month dt \<le> 12
      \<and> 1 \<le> dt_day dt \<and> dt_day dt \<le> days_in_month (dt_year dt) (dt_month dt)
      \<and> dt_hour dt < 24 \<and> dt_minute dt < 60 \<and> dt_second dt < 60
      \<and> dt_microsecond dt < 1000000)"

text \<open>
  \<^verbatim>\<open>datetime.fromisoformat(s).astimezone(timezone.utc)\<close> on the strings that \<open>isoformat\<close>
  writes: date, one separator character, time, an optional fraction of six digits, and the
  offset \<^verbatim>\<open>+00:00\<close>, for which \<^verbatim>\<open>astimezone\<close> changes nothing. Any other string is a
  \<^verbatim>\<open>ValueError\<close> here; Python reads more forms, which the pipeline never writes.
\<close>

definition fromisoformat_utc :: "string \<Rightarrow> exn + datetime" where
  "fromisoformat_utc s =
     (let time_tail = drop 19 s;
          has_fraction = (take 1 time_tail = ''.'');
          fraction = (if has_fraction then take 6 (drop 1 time_tail) else ''000000'');
          offset = (if has_fraction then drop 7 time_tail else time_tail)
      in if 19 \<le> length s \<and> take 1 (drop 4 s) = ''-'' \<and> take 1 (drop 7 s) = ''-''
            \<and> take 1 (drop 13 s) = '':'' \<and> take 1 (drop 16 s) = '':''
            \<and> length fraction = 6 \<and> offset = ''+00:00''
         then
           (case (decimal (take 4 s), decimal (take 2 (drop 5 s)), decimal (take 2 (drop 8 s)),
                  decimal (take 2 (drop 11 s)), decimal (take 2 (drop 14 s)),
                  decimal (take 2 (drop 17 s)), decimal fraction) of
              (Some y, Some mo, Some d, Some h, Some mi, Some sec, Some us) \<Rightarrow>
                (let dt = \<lparr>dt_year = y, dt_month = mo, dt_day = d, dt_hour = h,
                           dt_minute = mi, dt_second = sec, dt_microsecond = us\<rparr>
                 in if valid_datetime dt then Inr dt
                    else Inl (ValueError ''Invalid isoformat string''))
            | _ \<Rightarrow> Inl (ValueError ''Invalid isoformat string''))
         else Inl (ValueError ''Invalid isoformat string''))"

text \<open>
  \<^verbatim>\<open>dt.strftime("%Y-%m-%d")\<close> with the C library of Linux: the month and the day have two
  digits, the year (1 to 9999 in a datetime) is written without padding.
\<close>

definition year_text :: "nat \<Rightarrow> string" where
  "year_text y =
     (if 1000 \<le> y then digits4 y
      else if 100 \<le> y then
        [digit_char (y div 100 mod 10), digit_char (y div 10 mod 10), digit_char (y mod 10)]
      else if 10 \<le> y then digits2 y
      else [digit_char (y mod 10)])"

definition strftime_ymd :: "datetime \<Rightarrow> string" where
  "strftime_ymd dt =
     year_text (dt_year dt) @ ''-'' @ digits2 (dt_month dt) @ ''-'' @ digits2 (dt_day dt)"

subsection \<open>\<^verbatim>\<open>config.py\<close>\<close>

definition SUPPORTED_LANGUAGES :: "(string \<times> string) list" where
  "SUPPORTED_LANGUAGES =
     [(''ml'', ''Malayalam''), (''mr'', ''Marathi''), (''hi'', ''Hindi''), (''en'', ''English'')]"

subsection \<open>\<^verbatim>\<open>schemas.py\<close>\<close>

record chat_response =
  response_text :: string
  transcribed_text :: "string option"

record log_entry =
  log_notes :: string
  log_type :: "string option"
  date :: "string option"
  crop_name :: "string option"
  summary :: "string option"
  details :: "(string \<times> json) list option"

record voice_log_response =
  voice_transcribed_text :: string
  structured_log :: log_entry

record alert =
  alert_id :: string
  severity :: string
  title :: string
  message :: string
  suggestion :: string

text \<open>The validation of a field of type \<^verbatim>\<open>str\<close>, \<^verbatim>\<open>Optional[str]\<close>, \<^verbatim>\<open>Optional[Dict[str, Any]]\<close>.\<close>

fun as_str :: "json \<Rightarrow> exn + string" where
  "as_str (JStr s) = Inr s"
| "as_str _ = Inl (ValidationError ''Input should be a valid string'')"

fun as_optional_str :: "json \<Rightarrow> exn + string option" where
  "as_optional_str JNull = Inr None"
| "as_optional_str (JStr s) = Inr (Some s)"
| "as_optional_str _ = Inl (ValidationError ''Input should be a valid string'')"

fun as_optional_dict :: "json \<Rightarrow> exn + (string \<times> json) list option" where
  "as_optional_dict JNull = Inr None"
| "as_optional_dict (JDict d) = Inr (Some d)"
| "as_optional_dict _ = Inl (ValidationError ''Input should be a valid dictionary'')"

text \<open>
  \<^verbatim>\<open>schemas.Alert(**a)\<close>: \<open>a\<close> must be a dict, the five fields are required strings, other
  keys are ignored.
\<close>

definition required_str :: "(string \<times> json) list \<Rightarrow> string \<Rightarrow> exn + string" where
  "required_str d key =
     (case map_of d key of None \<Rightarrow> Inl (ValidationError ''Field required'') | Some v \<Rightarrow> as_str v)"

definition alert_of :: "json \<Rightarrow> exn + alert" where
  "alert_of a =
     (case a of
        JDict d \<Rightarrow>
          (case (required_str d ''id'', required_str d ''severity'', required_str d ''title'',
                 required_str d ''message'', required_str d ''suggestion'') of
             (Inr i, Inr s, Inr t, Inr m, Inr g) \<Rightarrow>
               Inr \<lparr>alert_id = i, severity = s, title = t, message = m, suggestion = g\<rparr>
           | _ \<Rightarrow> Inl (ValidationError ''validation error for Alert''))
      | _ \<Rightarrow> Inl (TypeError ''argument after ** must be a mapping''))"

subsection \<open>\<^verbatim>\<open>utils/translation_utils.py\<close>\<close>

definition translation_prompt :: "string \<Rightarrow> string \<Rightarrow> string \<Rightarrow> string" where
  "translation_prompt src_lang_name dest_lang_name text =
     ''Translate the following text from '' @ src_lang_name @ '' to '' @ dest_lang_name
     @ ''. Respond with only the translated text:'' @ [CHR 0x0A, CHR 0x0A] @ text"

text \<open>
  \<^verbatim>\<open>translate_text(text, src, dest)\<close>: the test \<open>src = dest\<close> comes first inside the
  \<^verbatim>\<open>try\<close>; the call and the reading of \<^verbatim>\<open>.text\<close> are both under the handler.
\<close>

definition translate_text ::
  "('img, 'vec, 'idx) services \<Rightarrow> string \<Rightarrow> string \<Rightarrow> string \<Rightarrow> string \<times> event list" where
  "translate_text sv text src dest =
     (let src_lang_name = dict_get SUPPORTED_LANGUAGES src src;
          dest_lang_name = dict_get SUPPORTED_LANGUAGES dest dest
      in if src = dest then (text, [Translate_invoked text src dest])
         else
           (let prompt = translation_prompt src_lang_name dest_lang_name text
            in case translation_model sv prompt of
                 Inr reply_text \<Rightarrow>
                   (strip reply_text,
                    [Translate_invoked text src dest, Translation_model_call prompt])
               | Inl e \<Rightarrow>
                   (''Translation Error'',
                    [Translate_invoked text src dest, Translation_model_call prompt])))"

text \<open>
  \<^verbatim>\<open>translate_text(text, src, dest)\<close> when \<open>src\<close> is not a \<^verbatim>\<open>str\<close> but \<^verbatim>\<open>None\<close>, a number or a
  bool, as a profile may hold: such a value is no key of \<^verbatim>\<open>SUPPORTED_LANGUAGES\<close> and is not
  equal to \<open>dest\<close>, so that the prompt names it by its \<^verbatim>\<open>str\<close> and the model is called.
\<close>

definition translate_text_other ::
  "('img, 'vec, 'idx) services \<Rightarrow> string \<Rightarrow> json \<Rightarrow> string \<Rightarrow> string \<times> event list" where
  "translate_text_other sv text src dest =
     (let src_lang_name = py_str sv src;
          dest_lang_name = dict_get SUPPORTED_LANGUAGES dest dest;
          prompt = translation_prompt src_lang_name dest_lang_name text
      in case translation_model sv prompt of
           Inr reply_text \<Rightarrow>
             (strip reply_text,
              [Translate_invoked text src_lang_name dest, Translation_model_call prompt])
         | Inl e \<Rightarrow>
             (''Translation Error'',
              [Translate_invoked text src_lang_name dest, Translation_model_call prompt]))"

subsection \<open>\<^verbatim>\<open>utils/rag_utils.py\<close>\<close>

text \<open>
  \<^verbatim>\<open>embed_texts(texts)\<close>: one batched call; the handler logs and raises the exception again.
\<close>

definition embed_texts ::
  "('img, 'vec, 'idx) services \<Rightarrow> string list \<Rightarrow> 'vec run" where
  "embed_texts sv texts =
     (case embed_content sv texts of
        Inr result \<Rightarrow> (Inr result, [Embed_call texts])
      | Inl e \<Rightarrow> (Inl (ServiceError e), [Embed_call texts]))"

text \<open>
  The comprehension \<^verbatim>\<open>[docs[i] for i in indices[0] if i < len(docs)]\<close>: the guard is the
  only test, and \<^verbatim>\<open>docs[i]\<close> is Python indexing, so that a raise there ends the comprehension.
\<close>

fun relevant_docs :: "string list \<Rightarrow> int list \<Rightarrow> exn + string list" where
  "relevant_docs docs [] = Inr []"
| "relevant_docs docs (i # rest) =
     (if i < int (length docs)
      then (case py_index docs i of
              Inl e \<Rightarrow> Inl e
            | Inr d \<Rightarrow>
                (case relevant_docs docs rest of
                   Inl e \<Rightarrow> Inl e
                 | Inr ds \<Rightarrow> Inr (d # ds)))
      else relevant_docs docs rest)"

definition context_separator :: string where
  "context_separator = [CHR 0x0A] @ ''---'' @ [CHR 0x0A]"

definition rag_error_text :: string where
  "rag_error_text = ''Error: Could not retrieve relevant context.''"

text \<open>
  \<^verbatim>\<open>rag_retrieve(query, index, docs, k)\<close>. Every \<open>Inl\<close> inside the \<^verbatim>\<open>try\<close> ends in the
  handler, which returns the error text.
\<close>

definition rag_retrieve ::
  "('img, 'vec, 'idx) services \<Rightarrow> string \<Rightarrow> 'idx \<Rightarrow> string list \<Rightarrow> int \<Rightarrow> string \<times> event list" where
  "rag_retrieve sv query index documents k =
     (case embed_texts sv [query] of
        (Inl e, t) \<Rightarrow> (rag_error_text, t)
      | (Inr query_embedding, t) \<Rightarrow>
          (case index_search sv index query_embedding k of
             Inl e \<Rightarrow> (rag_error_text, t @ [Search_call k])
           | Inr indices \<Rightarrow>
               (case py_index indices 0 of
                  Inl e \<Rightarrow> (rag_error_text, t @ [Search_call k])
                | Inr row \<Rightarrow>
                    (case relevant_docs documents row of
                       Inl e \<Rightarrow> (rag_error_text, t @ [Search_call k])
                     | Inr found \<Rightarrow> (py_join context_separator found, t @ [Search_call k])))))"

subsection \<open>\<^verbatim>\<open>utils/chatbot_utils.py\<close>\<close>

definition image_prompt :: string where
  "image_prompt = ''Analyze this image from a farm. Describe crop health, visible pests, diseases, or soil conditions. Be factual, concise, and respond in English.''"

definition image_fallback :: string where
  "image_fallback = ''Could not analyze the uploaded image.''"

text \<open>\<^verbatim>\<open>analyze_image_with_gemini(image_bytes)\<close>: the whole body is under the handler.\<close>

definition analyze_image_with_gemini ::
  "('img, 'vec, 'idx) services \<Rightarrow> bytes \<Rightarrow> string \<times> event list" where
  "analyze_image_with_gemini sv image_bytes =
     (case image_open sv image_bytes of
        Inl e \<Rightarrow> (image_fallback, [Image_open_call image_bytes])
      | Inr img \<Rightarrow>
          (case llm_model_image sv image_prompt img of
             Inl e \<Rightarrow>
               (image_fallback, [Image_open_call image_bytes, Llm_image_call image_prompt])
           | Inr reply_text \<Rightarrow>
               (strip reply_text,
                [Image_open_call image_bytes, Llm_image_call image_prompt])))"

definition chat_prompt ::
  "('img, 'vec, 'idx) services \<Rightarrow> string \<Rightarrow> json \<Rightarrow> json \<Rightarrow> string \<Rightarrow> string \<Rightarrow> string \<Rightarrow> string" where
  "chat_prompt sv native_language_name profile predictions image_analysis rag_context eng_query =
     [CHR 0x0A] @ ''    You are '' @ [CHR 0x27] @ ''Krishi Sakhi'' @ [CHR 0x27]
     @ '', an AI farming assistant. Your final response MUST be in '' @ native_language_name
     @ ''.'' @ [CHR 0x0A]
     @ ''    Analyze all the following information to provide a helpful a''
     @ ''nd actionable solution. For every statement or recommendation yo''
     @ ''u make, provide the reasoning behind it based on the user'' @ [CHR 0x27]
     @ ''s context.'' @ [CHR 0x0A, CHR 0x0A] @ ''    Farmer'' @ [CHR 0x27] @ ''s Profile: ''
     @ py_str sv profile @ [CHR 0x0A] @ ''    Today'' @ [CHR 0x27] @ ''s Predictions: ''
     @ py_str sv predictions @ [CHR 0x0A] @ ''    Analysis of Uploaded Image: ''
     @ image_analysis @ [CHR 0x0A] @ ''    Relevant Knowledge (in English): '' @ rag_context
     @ [CHR 0x0A] @ ''    Farmer'' @ [CHR 0x27] @ ''s Question (translated to English): ''
     @ [CHR 0x22] @ eng_query @ [CHR 0x22, CHR 0x0A, CHR 0x0A]
     @ ''    Based on all the above information, provide a comprehensive '' @ ''answer in ''
     @ native_language_name @ ''.'' @ [CHR 0x0A] @ ''    '' @ [CHR 0x0A]
     @ ''    The answer has to be to the point only answering the given '' @ eng_query
     @ '' question only. No extra information. Only answer the asked ques''
     @ ''tion and give a small to the point reasoning for the same no ext''
     @ ''ra analysis. Provide everything in proper markdown.'' @ [CHR 0x0A] @ ''    ''"

text \<open>
  \<^verbatim>\<open>process_chat_query(query, profile, predictions, faiss_index, docs, language, image_bytes)\<close>.
  \<^verbatim>\<open>rag_retrieve\<close> is called with its default \<open>k = 3\<close>; the last call is outside any handler.
\<close>

definition process_chat_query ::
  "('img, 'vec, 'idx) services \<Rightarrow> string \<Rightarrow> json \<Rightarrow> json \<Rightarrow> 'idx \<Rightarrow> string list \<Rightarrow> string
     \<Rightarrow> bytes option \<Rightarrow> string run" where
  "process_chat_query sv query profile predictions index documents language image_bytes =
     then_do (always (translate_text sv query language ''en'')) (\<lambda>eng_query.
       let native_language_name = dict_get SUPPORTED_LANGUAGES language language
       in then_do
            (case image_bytes of
               None \<Rightarrow> succeed ''No image provided.''
             | Some b \<Rightarrow>
                 if b = [] then succeed ''No image provided.''
                 else always (analyze_image_with_gemini sv b)) (\<lambda>image_analysis.
          then_do (always (rag_retrieve sv eng_query index documents 3)) (\<lambda>rag_context.
            let prompt = chat_prompt sv native_language_name profile predictions
                           image_analysis rag_context eng_query
            in case llm_model sv prompt of
                 Inr reply_text \<Rightarrow> (Inr reply_text, [Llm_call prompt])
               | Inl e \<Rightarrow> (Inl (ServiceError e), [Llm_call prompt]))))"

subsection \<open>\<^verbatim>\<open>utils/ml_utils.py\<close>\<close>

definition dashboard_prompt ::
  "('img, 'vec, 'idx) services \<Rightarrow> (string \<times> json) list \<Rightarrow> (string \<times> json) list \<Rightarrow> string" where
  "dashboard_prompt sv profile weather =
     [CHR 0x0A] @ ''    You are an expert agricultural analyst for India. Based on t''
     @ ''he following farmer profile and real-time weather, generate a co''
     @ ''mplete, structured dashboard report.'' @ [CHR 0x0A, CHR 0x0A]
     @ ''    **Farmer Profile:**'' @ [CHR 0x0A] @ ''    - State: ''
     @ py_str sv (dict_get profile ''state'' (JStr ''N/A'')) @ [CHR 0x0A]
     @ ''    - District: '' @ py_str sv (dict_get profile ''district'' (JStr ''N/A''))
     @ [CHR 0x0A] @ ''    - Primary Crop: ''
     @ py_str sv (dict_get profile ''primary_crop'' (JStr ''N/A'')) @ [CHR 0x0A]
     @ ''    - Soil pH: '' @ py_str sv (dict_get profile ''soil_ph'' (JStr ''N/A''))
     @ [CHR 0x0A] @ ''    - Soil Nutrients (N,P,K in kg/ha): ''
     @ py_str sv (dict_get profile ''soil_N'' (JStr ''N/A'')) @ '', ''
     @ py_str sv (dict_get profile ''soil_P'' (JStr ''N/A'')) @ '', ''
     @ py_str sv (dict_get profile ''soil_K'' (JStr ''N/A'')) @ [CHR 0x0A]
     @ ''    - Farming Experience: ''
     @ py_str sv (dict_get profile ''farming_experience_years'' (JStr ''N/A'')) @ '' years''
     @ [CHR 0x0A] @ ''    - Past Pest Issues: ''
     @ py_str sv (dict_get profile ''past_pest_disease_issues'' (JStr ''None mentioned''))
     @ [CHR 0x0A] @ ''    - Government Schemes Applied For: ''
     @ py_str sv (dict_get profile ''participation_in_govt_schemes'' (JList [JStr ''None'']))
     @ [CHR 0x0A, CHR 0x0A] @ ''    **Real-Time Weather Data:**'' @ [CHR 0x0A]
     @ ''    - Temperature: '' @ py_str sv (dict_get weather ''temperature'' (JStr ''N/A''))
     @ [CHR 0xC2, CHR 0xB0] @ ''C'' @ [CHR 0x0A] @ ''    - Condition: ''
     @ py_str sv (dict_get weather ''weather'' (JStr ''N/A'')) @ [CHR 0x0A]
     @ ''    - Humidity: '' @ py_str sv (dict_get weather ''humidity'' (JStr ''N/A'')) @ ''%''
     @ [CHR 0x0A, CHR 0x0A] @ ''    **Your Tasks:**'' @ [CHR 0x0A]
     @ ''    1.  **Crop Recommendation**: Recommend the single best crop ''
     @ ''for the next planting season.'' @ [CHR 0x0A]
     @ ''    2.  **Yield Prediction**: Predict the yield in kg/acre for t''
     @ ''heir current primary crop.'' @ [CHR 0x0A]
     @ ''    3.  **Pest Risk**: Predict the pest risk as a percentage fro'' @ ''m 0 to 100.''
     @ [CHR 0x0A] @ ''    4.  **Quality Grading**: Estimate a '' @ [CHR 0x22]
     @ ''Quality Grading Score'' @ [CHR 0x22] @ '' from 0 to 100.'' @ [CHR 0x0A]
     @ ''    5.  **Price Range**: Provide an estimated market price range''
     @ '' (min and max) per quintal for their primary crop in their distr'' @ ''ict.''
     @ [CHR 0x0A] @ ''    6.  **Scheme Analysis**: List relevant government schemes th''
     @ ''ey are likely eligible for, and also list the ones they'' @ [CHR 0x27]
     @ ''ve already applied for from their profile.'' @ [CHR 0x0A] @ ''    ''"

definition default_predictions :: "(string \<times> json) list \<Rightarrow> json" where
  "default_predictions profile =
     JDict [(''recommended_crop'', JStr ''Rice''),
            (''yield_prediction_kg_acre'', JFloat 15000 (- 1)),
            (''pest_risk_percent'', JInt 40),
            (''quality_grading_score'', JInt 75),
            (''price_range_per_quintal'',
               JDict [(''crop_name'', dict_get profile ''primary_crop'' (JStr ''N/A'')),
                      (''min_price'', JInt 2000), (''max_price'', JInt 2200)]),
            (''applicable_schemes'', JList [JStr ''PM-KISAN'']),
            (''applied_schemes'', dict_get profile ''participation_in_govt_schemes'' (JList []))]"

text \<open>
  \<^verbatim>\<open>get_dashboard_predictions(profile, weather)\<close>. The prompt is built before the \<^verbatim>\<open>try\<close>,
  with \<^verbatim>\<open>.get\<close> on both arguments: a value that is not a dict raises there.
\<close>

definition get_dashboard_predictions ::
  "('img, 'vec, 'idx) services \<Rightarrow> json \<Rightarrow> json \<Rightarrow> json run" where
  "get_dashboard_predictions sv profile weather =
     (case profile of
        JDict p \<Rightarrow>
          (case weather of
             JDict w \<Rightarrow>
               (let prompt = dashboard_prompt sv p w
                in case structured_llm sv prompt of
                     Inr report \<Rightarrow> (Inr report, [Structured_llm_call prompt])
                   | Inl e \<Rightarrow> (Inr (default_predictions p), [Structured_llm_call prompt]))
           | _ \<Rightarrow> raise (AttributeError ''get''))
      | _ \<Rightarrow> raise (AttributeError ''get''))"

subsection \<open>\<^verbatim>\<open>crud.py\<close>\<close>

text \<open>
  \<^verbatim>\<open>_make_api_request(method, endpoint, json_data)\<close>. Only a \<^verbatim>\<open>RequestException\<close> is caught:
  a failed request, a status of 400 to 599 (\<^verbatim>\<open>raise_for_status\<close>) and a body that is not JSON
  all give \<^verbatim>\<open>None\<close>; the \<^verbatim>\<open>ValueError\<close> of an unsupported method passes.
\<close>

definition make_api_request ::
  "('img, 'vec, 'idx) services \<Rightarrow> string \<Rightarrow> string \<Rightarrow> json option \<Rightarrow> json run" where
  "make_api_request sv method endpoint json_data =
     (let url = api_base_url sv @ endpoint
      in if upper method = ''GET'' \<or> upper method = ''POST'' then
           (let request =
                  (if upper method = ''GET''
                   then \<lparr>http_method = ''GET'', http_url = url, http_json = None,
                         http_timeout = Some 15\<rparr>
                   else \<lparr>http_method = ''POST'', http_url = url, http_json = json_data,
                         http_timeout = Some 15\<rparr>)
            in case http_backend sv request of
                 Inl e \<Rightarrow> (Inr JNull, [Http_call request])
               | Inr response \<Rightarrow>
                   if 400 \<le> status_code response \<and> status_code response < 600
                   then (Inr JNull, [Http_call request])
                   else (case body response of
                           None \<Rightarrow> (Inr JNull, [Http_call request])
                         | Some document \<Rightarrow> (Inr document, [Http_call request])))
         else raise (ValueError ''Unsupported HTTP method''))"

text \<open>
  \<^verbatim>\<open>get_user_profile(user_id)\<close>: the first farm when the reply is a non-empty list,
  \<^verbatim>\<open>None\<close> otherwise.
\<close>

definition get_user_profile ::
  "('img, 'vec, 'idx) services \<Rightarrow> string \<Rightarrow> json run" where
  "get_user_profile sv user_id =
     then_do (make_api_request sv ''GET'' (''/api/users/'' @ user_id @ ''/farms/'') None)
       (\<lambda>farms. case farms of
                   JList (primary_farm # others) \<Rightarrow> succeed primary_farm
                 | _ \<Rightarrow> succeed JNull)"

definition save_log_entry ::
  "('img, 'vec, 'idx) services \<Rightarrow> string \<Rightarrow> json \<Rightarrow> json run" where
  "save_log_entry sv farm_id log_data =
     make_api_request sv ''POST'' (''/api/farms/'' @ farm_id @ ''/activities'') (Some log_data)"

subsection \<open>\<^verbatim>\<open>main.py\<close>\<close>

text \<open>
  \<^verbatim>\<open>transcribe_audio_with_google(audio_bytes, language_code)\<close>: the test of the client is
  outside the \<^verbatim>\<open>try\<close>; inside it every exception becomes an \<^verbatim>\<open>HTTPException\<close> with
  status 500.
\<close>

definition transcribe_audio_with_google ::
  "'idx app_state \<Rightarrow> ('img, 'vec, 'idx) services \<Rightarrow> bytes \<Rightarrow> string \<Rightarrow> string run" where
  "transcribe_audio_with_google st sv audio_bytes lang =
     (if \<not> loaded_speech_client st then raise (HTTPException 503 ''Speech client not initialized.'')
      else
        (case audio_from_file sv audio_bytes of
           Inl e \<Rightarrow>
             (Inl (HTTPException 500 (''Failed to transcribe audio: '' @ e)),
              [Audio_decode_call audio_bytes])
         | Inr segment \<Rightarrow>
             (let config_speech =
                    \<lparr>encoding = ''LINEAR16'', sample_rate_hertz = frame_rate segment,
                     language_code = lang @ ''-IN'', audio_channel_count = channels segment\<rparr>;
                  trace = [Audio_decode_call audio_bytes, Speech_recognize_call config_speech]
              in case speech_recognize sv config_speech (wav_content segment) of
                   Inl e \<Rightarrow> (Inl (HTTPException 500 (''Failed to transcribe audio: '' @ e)), trace)
                 | Inr results \<Rightarrow>
                     (case results of
                        transcript # others \<Rightarrow> (Inr transcript, trace)
                      | [] \<Rightarrow> (Inr [], trace)))))"

text \<open>
  \<^verbatim>\<open>generate_structured_log(transcribed_text, farm_id)\<close>; \<open>n\<close> is the number of earlier
  readings of the clock.
\<close>

definition generate_structured_log ::
  "('img, 'vec, 'idx) services \<Rightarrow> nat \<Rightarrow> string \<Rightarrow> string \<Rightarrow> (string \<times> json) list \<times> event list" where
  "generate_structured_log sv n text farm_id =
     ([(''farmId'', JStr farm_id),
       (''activityType'', JStr ''general''),
       (''description'', JStr text),
       (''geoLocation'', JDict [(''lat'', JInt 0), (''lng'', JInt 0)]),
       (''id'', JNull),
       (''timestamp'', JStr (py_replace ''+00:00'' ''Z'' (isoformat (now_utc sv n))))],
      [Clock_read n])"

text \<open>
  \<^verbatim>\<open>chat_with_assistant\<close>. An uploaded file is its content; \<^verbatim>\<open>if audio_file\<close> holds for every
  upload. The \<^verbatim>\<open>preferredLanguage\<close> of the profile may be any value: the transcription formats
  it into the language code, and \<^verbatim>\<open>translate_text\<close> looks it up in \<^verbatim>\<open>SUPPORTED_LANGUAGES\<close>
  before its \<^verbatim>\<open>try\<close>, which raises \<^verbatim>\<open>TypeError\<close> for a list or a dict (unhashable).
\<close>

definition chat_with_assistant ::
  "'idx app_state \<Rightarrow> ('img, 'vec, 'idx) services \<Rightarrow> string \<Rightarrow> string option \<Rightarrow> string
     \<Rightarrow> bytes option \<Rightarrow> bytes option \<Rightarrow> chat_response run" where
  "chat_with_assistant st sv user_id text_query lang image_file audio_file =
     then_do (get_user_profile sv user_id) (\<lambda>profile.
       if \<not> truthy profile then raise (HTTPException 404 ''User profile not found.'')
       else
         (case profile of
            JDict p \<Rightarrow>
              (let source_language = dict_get p ''preferredLanguage'' (JStr ''en'')
               in then_do
                    (case audio_file of
                       None \<Rightarrow> succeed (text_query, None)
                     | Some audio_bytes \<Rightarrow>
                         then_do
                           (transcribe_audio_with_google st sv audio_bytes
                              (py_str sv source_language))
                           (\<lambda>transcribed.
                              then_do
                                (case source_language of
                                   JStr source \<Rightarrow>
                                     always (translate_text sv transcribed source ''en'')
                                 | JList xs \<Rightarrow> raise (TypeError ''unhashable type'')
                                 | JDict kvs \<Rightarrow> raise (TypeError ''unhashable type'')
                                 | _ \<Rightarrow>
                                     always (translate_text_other sv transcribed source_language
                                               ''en''))
                                (\<lambda>translated. succeed (Some translated, Some transcribed))))
                    (\<lambda>(user_query, transcribed).
                  (case user_query of
                     None \<Rightarrow> raise (HTTPException 400 ''No query provided.'')
                   | Some query \<Rightarrow>
                       if query = [] then raise (HTTPException 400 ''No query provided.'')
                       else
                         then_do
                           (case fetch_weather sv (dict_get p ''village'' (JStr [])) of
                              Inr w \<Rightarrow> (Inr w, [Weather_call (dict_get p ''village'' (JStr []))])
                            | Inl e \<Rightarrow>
                                (Inl (ServiceError e),
                                 [Weather_call (dict_get p ''village'' (JStr []))]))
                           (\<lambda>weather_data.
                         then_do (get_dashboard_predictions sv profile weather_data)
                           (\<lambda>predictions.
                         (case loaded_faiss_index st of
                            None \<Rightarrow> raise (KeyError ''faiss_index'')
                          | Some index \<Rightarrow>
                              (case loaded_docs st of
                                 None \<Rightarrow> raise (KeyError ''docs'')
                               | Some documents \<Rightarrow>
                                   then_do
                                     (process_chat_query sv query profile predictions index
                                        documents ''en'' image_file)
                                     (\<lambda>english_response.
                                   then_do (always (translate_text sv english_response ''en'' lang))
                                     (\<lambda>final_response_text.
                                   succeed \<lparr>response_text = final_response_text,
                                            transcribed_text = transcribed\<rparr>)))))))))
          | _ \<Rightarrow> raise (AttributeError ''get'')))"

text \<open>
  What \<^verbatim>\<open>create_log_from_voice\<close> returns: the dict with status \<^verbatim>\<open>skipped\<close> and a reason, or
  the \<^verbatim>\<open>VoiceLogResponse\<close>.
\<close>

datatype voice_log_result =
    Skipped string
  | Logged voice_log_response

text \<open>
  \<^verbatim>\<open>create_log_from_voice(farm_id, audio_file, language_code)\<close>. The clock is read in
  \<^verbatim>\<open>generate_structured_log\<close> and again in step 4, whose reading replaces the first one.
  \<^verbatim>\<open>generate_structured_log\<close> has no raise, so the handler of step 3 is never entered.
\<close>

definition create_log_from_voice ::
  "'idx app_state \<Rightarrow> ('img, 'vec, 'idx) services \<Rightarrow> string \<Rightarrow> bytes \<Rightarrow> string
     \<Rightarrow> voice_log_result run" where
  "create_log_from_voice st sv farm_id audio_bytes lang =
     (if audio_bytes = [] then succeed (Skipped ''Empty audio file'')
      else
        then_do (transcribe_audio_with_google st sv audio_bytes lang) (\<lambda>transcribed.
          if transcribed = [] then succeed (Skipped ''No transcription result'')
          else
            then_do (always (generate_structured_log sv 0 transcribed farm_id)) (\<lambda>generated.
              let timestamp = py_replace ''+00:00'' ''Z'' (isoformat (now_utc sv 1));
                  api_log = dict_set generated ''timestamp'' (JStr timestamp)
              in then_do (Inr (), [Clock_read 1]) (\<lambda>_.
                 then_do (save_log_entry sv farm_id (JDict api_log)) (\<lambda>saved_log_response.
                   if \<not> truthy saved_log_response
                   then raise (HTTPException 500 ''Failed to save log entry to the database.'')
                   else
                     then_do (then_do (as_str (dict_get api_log ''timestamp'' JNull), [])
                                (\<lambda>ts. (fromisoformat_utc (py_replace ''Z'' ''+00:00'' ts), [])))
                       (\<lambda>parsed.
                     let date_str = strftime_ymd parsed
                     in then_do (as_str (dict_get api_log ''description'' (JStr [])), [])
                          (\<lambda>notes_field.
                        then_do (as_optional_str (dict_get api_log ''activityType'' (JStr [])), [])
                          (\<lambda>log_type_field.
                        then_do (as_optional_str (dict_get api_log ''description'' (JStr [])), [])
                          (\<lambda>summary_field.
                        then_do (as_optional_dict (dict_get api_log ''details'' (JDict [])), [])
                          (\<lambda>details_field.
                        succeed
                          (Logged
                             \<lparr>voice_transcribed_text = transcribed,
                              structured_log =
                                \<lparr>log_notes = notes_field, log_type = log_type_field,
                                 date = Some date_str, crop_name = None,
                                 summary = summary_field,
                                 details = details_field\<rparr>\<rparr>)))))))))))"

text \<open>
  The values that \<^verbatim>\<open>for a in raw_alerts\<close> visits: the elements of a list, the keys of a
  dict; any other document of the backend is not iterable, but for a string, whose
  characters no \<^verbatim>\<open>Alert\<close> accepts.
\<close>

fun iterate :: "json \<Rightarrow> exn + json list" where
  "iterate (JList xs) = Inr xs"
| "iterate (JDict kvs) = Inr (map (\<lambda>(k, v). JStr k) kvs)"
| "iterate (JStr s) = Inr (map (\<lambda>c. JStr [c]) s)"
| "iterate _ = Inl (TypeError ''object is not iterable'')"

text \<open>The loop of \<^verbatim>\<open>get_proactive_alerts\<close>: an entry that \<^verbatim>\<open>Alert\<close> rejects is skipped.\<close>

fun valid_alerts :: "json list \<Rightarrow> alert list" where
  "valid_alerts [] = []"
| "valid_alerts (a # rest) =
     (case alert_of a of Inr x \<Rightarrow> x # valid_alerts rest | Inl e \<Rightarrow> valid_alerts rest)"

text \<open>
  \<^verbatim>\<open>get_proactive_alerts(user_id)\<close>: \<^verbatim>\<open>requests.get\<close> is called directly, with the URL as its
  only argument, and \<^verbatim>\<open>.json()\<close> is read without a handler.
\<close>

definition get_proactive_alerts ::
  "('img, 'vec, 'idx) services \<Rightarrow> string \<Rightarrow> alert list run" where
  "get_proactive_alerts sv user_id =
     (let request = \<lparr>http_method = ''GET'',
                     http_url = api_base_url sv @ ''/api/users/'' @ user_id @ ''/alerts/'',
                     http_json = None, http_timeout = None\<rparr>
      in case http_backend sv request of
           Inl e \<Rightarrow> (Inl (RequestException e), [Http_call request])
         | Inr response \<Rightarrow>
             (case body response of
                None \<Rightarrow> (Inl (RequestException ''Expecting value''), [Http_call request])
              | Some raw_alerts \<Rightarrow>
                  (case iterate raw_alerts of
                     Inl e \<Rightarrow> (Inl e, [Http_call request])
                   | Inr entries \<Rightarrow> (Inr (valid_alerts entries), [Http_call request]))))"

subsection \<open>Reading a trace\<close>

text \<open>The events of a trace that are calls to a generative model.\<close>

fun is_generative_call :: "event \<Rightarrow> bool" where
  "is_generative_call (Translation_model_call p) = True"
| "is_generative_call (Llm_call p) = True"
| "is_generative_call (Llm_image_call p) = True"
| "is_generative_call (Structured_llm_call p) = True"
| "is_generative_call _ = False"

fun is_translate_invocation :: "event \<Rightarrow> bool" where
  "is_translate_invocation (Translate_invoked t s d) = True"
| "is_translate_invocation _ = False"

text \<open>The requests that a trace sends over plain HTTP.\<close>

fun http_requests :: "event list \<Rightarrow> http_request list" where
  "http_requests [] = []"
| "http_requests (Http_call r # t) = r # http_requests t"
| "http_requests (e # t) = http_requests t"

subsection \<open>Collaborators for the worked examples\<close>

text \<open>
  A backend in which every collaborator answers: the index gives the positions 9, 2 and 8,
  the speech service hears one sentence, the translation model and the chat model both
  answer \<^verbatim>\<open>ok\<close>, and the HTTP backend replies with one farm.
\<close>

definition example_services :: "(unit, unit, unit) services" where
  "example_services =
     \<lparr>translation_model = (\<lambda>prompt. Inr ''ok''),
      llm_model = (\<lambda>prompt. Inr ''ok''),
      llm_model_image = (\<lambda>prompt img. Inr ''healthy leaves''),
      image_open = (\<lambda>b. Inr ()),
      embed_content = (\<lambda>texts. Inr ()),
      index_search = (\<lambda>index v k. Inr [[9, 2, 8]]),
      structured_llm = (\<lambda>prompt. Inr (JDict [(''pest_risk_percent'', JInt 40)])),
      fetch_weather = (\<lambda>village. Inr (JDict [(''humidity'', JInt 70)])),
      audio_from_file = (\<lambda>b. Inr \<lparr>frame_rate = 16000, channels = 1, wav_content = b\<rparr>),
      speech_recognize = (\<lambda>c b. Inr [''Applied 50kg of Urea to the paddy crop today'']),
      http_backend = (\<lambda>r. Inr \<lparr>status_code = 200,
                                 body = Some (JList [JDict [(''primary_crop'', JStr ''Paddy'')]])\<rparr>),
      now_utc = (\<lambda>n. \<lparr>dt_year = 2026, dt_month = 11, dt_day = 4, dt_hour = 9,
                       dt_minute = 40, dt_second = 7, dt_microsecond = 0\<rparr>),
      api_base_url = ''https://farmvichardatabase.onrender.com/'',
      py_repr = (\<lambda>v. ''{}'')\<rparr>"

text \<open>The same backend with every remote model and service out of reach.\<close>

definition failing_services :: "(unit, unit, unit) services" where
  "failing_services =
     example_services
       \<lparr>translation_model := (\<lambda>prompt. Inl ''503 unavailable''),
        llm_model_image := (\<lambda>prompt img. Inl ''503 unavailable''),
        image_open := (\<lambda>b. Inl ''cannot identify image file''),
        embed_content := (\<lambda>texts. Inl ''503 unavailable''),
        http_backend := (\<lambda>r. Inl ''connection refused'')\<rparr>"

text \<open>
  The first backend for a recording that holds no speech, and the same for a farmer whose
  profile prefers Hindi.
\<close>

definition silent_services :: "(unit, unit, unit) services" where
  "silent_services = example_services\<lparr>speech_recognize := (\<lambda>c b. Inr [])\<rparr>"

definition silent_hindi_services :: "(unit, unit, unit) services" where
  "silent_hindi_services =
     silent_services
       \<lparr>http_backend := (\<lambda>r. Inr \<lparr>status_code = 200,
                                    body = Some (JList [JDict [(''preferredLanguage'', JStr ''hi'')]])\<rparr>)\<rparr>"

definition eight_docs :: "string list" where
  "eight_docs = [''d0'', ''d1'', ''d2'', ''d3'', ''d4'', ''d5'', ''d6'', ''d7'']"

definition example_state :: "unit app_state" where
  "example_state =
     \<lparr>loaded_speech_client = True, loaded_faiss_index = Some (),
      loaded_docs = Some eight_docs\<rparr>"

section \<open>Properties\<close>

subsection \<open>Helper facts\<close>

lemma upper_literals:
  "upper ''GET'' = ''GET''" "upper ''POST'' = ''POST''"
  by (simp_all add: upper.simps upper_two_def upper_three_def upper_char_def)


lemma py_index_minus_one:
  assumes "xs \<noteq> []"
  shows "py_index xs (- 1) = Inr (last xs)"
proof -
  from assms obtain n where n: "length xs = Suc n"
    by (cases xs) auto
  then have "nat (int (length xs) + - 1) = n" by simp
  moreover from n have "- int (length xs) \<le> - 1" by simp
  moreover from n assms have "last xs = xs ! n" by (simp add: last_conv_nth)
  ultimately show ?thesis
    by (simp add: py_index_def)
qed

lemma py_index_in_range:
  "- int (length xs) \<le> i \<Longrightarrow> i < int (length xs) \<Longrightarrow> \<exists>x. py_index xs i = Inr x"
  unfolding py_index_def by auto




lemma relevant_docs_total:
  "\<forall>i\<in>set row. - int (length docs) \<le> i \<Longrightarrow> \<exists>found. relevant_docs docs row = Inr found"
proof (induction row)
  case Nil
  then show ?case by simp
next
  case (Cons i rest)
  then obtain found where rest: "relevant_docs docs rest = Inr found" by auto
  show ?case
  proof (cases "i < int (length docs)")
    case True
    with Cons.prems obtain d where "py_index docs i = Inr d"
      using py_index_in_range [of docs i] by auto
    with True rest show ?thesis by simp
  next
    case False
    with rest show ?thesis by simp
  qed
qed

lemma relevant_docs_sentinel:
  "relevant_docs docs row = Inr found \<Longrightarrow> - 1 \<in> set row \<Longrightarrow> docs \<noteq> [] \<Longrightarrow>
   last docs \<in> set found"
proof (induction row arbitrary: found)
  case Nil
  then show ?case by simp
next
  case (Cons i rest)
  show ?case
  proof (cases "i = - 1")
    case True
    with Cons.prems show ?thesis
      by (auto simp: py_index_minus_one split: sum.splits)
  next
    case False
    with Cons show ?thesis
      by (auto split: if_splits sum.splits)
  qed
qed

lemma rag_retrieve_success:
  assumes "embed_content sv [query] = Inr qe"
    and "index_search sv index qe k = Inr (row # others)"
    and "relevant_docs docs row = Inr found"
  shows "fst (rag_retrieve sv query index docs k) = py_join context_separator found"
  using assms by (simp add: rag_retrieve_def embed_texts_def py_index_def)


lemma py_join_contains:
  "d \<in> set found \<Longrightarrow> \<exists>before after. py_join sep found = before @ d @ after"
proof (induction sep found rule: py_join.induct)
  case (1 sep)
  then show ?case by simp
next
  case (2 sep x)
  then have "py_join sep [x] = [] @ d @ []" by simp
  then show ?case by blast
next
  case (3 sep x y ys)
  show ?case
  proof (cases "d = x")
    case True
    then have "py_join sep (x # y # ys) = [] @ d @ (sep @ py_join sep (y # ys))" by simp
    then show ?thesis by blast
  next
    case False
    with 3 obtain before after where "py_join sep (y # ys) = before @ d @ after" by auto
    then have "py_join sep (x # y # ys) = (x @ sep @ before) @ d @ after" by simp
    then show ?thesis by blast
  qed
qed

subsection \<open>Helper facts: timestamps\<close>

lemma of_char_digit_char: "d < 10 \<Longrightarrow> (of_char (digit_char d) :: nat) = 48 + d"
  by (simp add: digit_char_def)

lemma digit_value_digit_char: "d < 10 \<Longrightarrow> digit_value (digit_char d) = Some d"
  by (simp add: digit_value_def of_char_digit_char)

lemma digit_char_neq:
  assumes "d < 10" and "(of_char c :: nat) < 48 \<or> 57 < (of_char c :: nat)"
  shows "digit_char d \<noteq> c"
proof
  assume "digit_char d = c"
  then have "(of_char c :: nat) = 48 + d" using of_char_digit_char [OF assms(1)] by simp
  with assms show False by auto
qed

lemma decimal_digits2: "n < 100 \<Longrightarrow> decimal (digits2 n) = Some n"
  by (simp add: decimal_def digits2_def digit_value_digit_char)

lemma next_digit:
  fixes n k m :: nat
  assumes "m = 10 * k"
  shows "n div k = 10 * (n div m) + n div k mod 10"
proof -
  have "n div m = n div k div 10"
    unfolding assms by (simp add: div_mult2_eq mult.commute)
  then have "10 * (n div m) + n div k mod 10 = 10 * (n div k div 10) + n div k mod 10"
    by (rule arg_cong)
  also have "\<dots> = n div k" by (rule mult_div_mod_eq)
  finally show ?thesis by (rule sym)
qed

lemma decimal_digits4:
  assumes "n < 10000"
  shows "decimal (digits4 n) = Some n"
proof -
  have top: "n div 1000 < 10" using assms by (simp add: less_mult_imp_div_less)
  then have d3: "n div 1000 mod 10 = n div 1000" by simp
  have s2: "n div 100 = 10 * (n div 1000) + n div 100 mod 10"
    by (rule next_digit) simp
  have s1: "n div 10 = 10 * (n div 100) + n div 10 mod 10"
    by (rule next_digit) simp
  have s0: "n = 10 * (n div 10) + n mod 10" by (rule mult_div_mod_eq [symmetric])
  have "10 * (10 * (10 * (n div 1000) + n div 100 mod 10) + n div 10 mod 10) + n mod 10 = n"
    by (simp only: s2 [symmetric] s1 [symmetric] s0 [symmetric])
  then show ?thesis
    by (simp add: decimal_def digits4_def digit_value_digit_char d3 top)
qed

lemma decimal_digits6:
  assumes "n < 1000000"
  shows "decimal (digits6 n) = Some n"
proof -
  have top: "n div 100000 < 10" using assms by (simp add: less_mult_imp_div_less)
  then have d5: "n div 100000 mod 10 = n div 100000" by simp
  have s4: "n div 10000 = 10 * (n div 100000) + n div 10000 mod 10"
    by (rule next_digit) simp
  have s3: "n div 1000 = 10 * (n div 10000) + n div 1000 mod 10"
    by (rule next_digit) simp
  have s2: "n div 100 = 10 * (n div 1000) + n div 100 mod 10"
    by (rule next_digit) simp
  have s1: "n div 10 = 10 * (n div 100) + n div 10 mod 10"
    by (rule next_digit) simp
  have s0: "n = 10 * (n div 10) + n mod 10" by (rule mult_div_mod_eq [symmetric])
  have "10 * (10 * (10 * (10 * (10 * (n div 100000) + n div 10000 mod 10) + n div 1000 mod 10)
          + n div 100 mod 10) + n div 10 mod 10) + n mod 10 = n"
    by (simp only: s4 [symmetric] s3 [symmetric] s2 [symmetric] s1 [symmetric] s0 [symmetric])
  then show ?thesis
    by (simp add: decimal_def digits6_def digit_value_digit_char d5 top)
qed

lemma py_replace_suffix:
  assumes "old \<noteq> []"
  shows "hd old \<notin> set s \<Longrightarrow> py_replace old new (s @ old) = s @ new"
proof (induction s)
  case Nil
  from assms obtain c cs where "old = c # cs" by (cases old) auto
  then show ?case by simp
next
  case (Cons c s)
  from assms obtain a as where old: "old = a # as" by (cases old) auto
  with Cons.prems have "c \<noteq> a" by auto
  with old have "take (length old) (c # s @ old) \<noteq> old" by auto
  with Cons show ?case by simp
qed


lemma length_digits [simp]:
  "length (digits2 n) = 2" "length (digits4 n) = 4" "length (digits6 n) = 6"
  by (simp_all add: digits2_def digits4_def digits6_def)

lemma digit_char_not_plus: "d < 10 \<Longrightarrow> digit_char d \<noteq> CHR ''+''"
  by (rule digit_char_neq) simp_all

lemma digit_char_not_Z: "d < 10 \<Longrightarrow> digit_char d \<noteq> CHR ''Z''"
  by (rule digit_char_neq) simp_all

lemma digit_char_mod_marks:
  "digit_char (k mod 10) \<noteq> CHR ''+''" "CHR ''+'' \<noteq> digit_char (k mod 10)"
  "digit_char (k mod 10) \<noteq> CHR ''Z''" "CHR ''Z'' \<noteq> digit_char (k mod 10)"
  using digit_char_not_plus [of "k mod 10"] digit_char_not_Z [of "k mod 10"]
  by auto

lemma digits_without_marks:
  "CHR ''+'' \<notin> set (digits2 n)" "CHR ''+'' \<notin> set (digits4 n)" "CHR ''+'' \<notin> set (digits6 n)"
  "CHR ''Z'' \<notin> set (digits2 n)" "CHR ''Z'' \<notin> set (digits4 n)" "CHR ''Z'' \<notin> set (digits6 n)"
  by (simp_all add: digits2_def digits4_def digits6_def digit_char_mod_marks)

lemma isoformat_split:
  "\<exists>stem. isoformat dt = stem @ ''+00:00'' \<and> CHR ''+'' \<notin> set stem \<and> CHR ''Z'' \<notin> set stem"
proof -
  let ?stem = "digits4 (dt_year dt) @ ''-'' @ digits2 (dt_month dt) @ ''-'' @ digits2 (dt_day dt)
     @ ''T'' @ digits2 (dt_hour dt) @ '':'' @ digits2 (dt_minute dt) @ '':''
     @ digits2 (dt_second dt)
     @ (if dt_microsecond dt = 0 then [] else ''.'' @ digits6 (dt_microsecond dt))"
  have "isoformat dt = ?stem @ ''+00:00''" by (simp add: isoformat_def)
  moreover have "CHR ''+'' \<notin> set ?stem" by (simp add: digits_without_marks)
  moreover have "CHR ''Z'' \<notin> set ?stem" by (simp add: digits_without_marks)
  ultimately show ?thesis by blast
qed

lemma timestamp_round_trip:
  "py_replace ''Z'' ''+00:00'' (py_replace ''+00:00'' ''Z'' (isoformat dt)) = isoformat dt"
proof -
  obtain stem where stem: "isoformat dt = stem @ ''+00:00''"
    and no_plus: "CHR ''+'' \<notin> set stem" and no_Z: "CHR ''Z'' \<notin> set stem"
    using isoformat_split by blast
  have "py_replace ''+00:00'' ''Z'' (stem @ ''+00:00'') = stem @ ''Z''"
    using no_plus by (intro py_replace_suffix) simp_all
  moreover have "py_replace ''Z'' ''+00:00'' (stem @ ''Z'') = stem @ ''+00:00''"
    using no_Z by (intro py_replace_suffix) simp_all
  ultimately show ?thesis using stem by simp
qed

lemma fromisoformat_isoformat:
  assumes "valid_datetime dt"
  shows "fromisoformat_utc (isoformat dt) = Inr dt"
proof -
  obtain y mo d h mi sec us where dt: "dt = \<lparr>dt_year = y, dt_month = mo, dt_day = d, dt_hour = h,
      dt_minute = mi, dt_second = sec, dt_microsecond = us\<rparr>"
    by (cases dt) auto
  from assms have bounds: "y < 10000" "mo < 100" "d < 100" "h < 100" "mi < 100" "sec < 100"
      "us < 1000000"
    by (auto simp: valid_datetime_def dt days_in_month_def split: if_splits)
  note parsed = decimal_digits4 [OF bounds(1)] decimal_digits2 [OF bounds(2)]
    decimal_digits2 [OF bounds(3)] decimal_digits2 [OF bounds(4)] decimal_digits2 [OF bounds(5)]
    decimal_digits2 [OF bounds(6)] decimal_digits6 [OF bounds(7)]
  have zero: "decimal ''000000'' = Some 0"
    by (simp add: decimal_def digit_value_def)
  show ?thesis
  proof (cases "us = 0")
    case True
    with assms show ?thesis
      by (simp add: fromisoformat_utc_def isoformat_def dt parsed zero)
  next
    case False
    with assms show ?thesis
      by (simp add: fromisoformat_utc_def isoformat_def dt parsed)
  qed
qed

subsection \<open>Helper facts: runs and the voice log\<close>

lemma fst_then_do:
  "fst (then_do m f) = (case fst m of Inl e \<Rightarrow> Inl e | Inr x \<Rightarrow> fst (f x))"
  by (cases m) (auto simp: then_do_def split: sum.splits prod.splits)

lemma snd_then_do:
  "snd (then_do m f) = (case fst m of Inl e \<Rightarrow> snd m | Inr x \<Rightarrow> snd m @ snd (f x))"
  by (cases m) (auto simp: then_do_def split: sum.splits prod.splits)

lemma run_simps [simp]:
  "fst (succeed x) = Inr x" "snd (succeed x) = []"
  "fst (raise e) = Inl e" "snd (raise e) = []"
  "fst (always m) = Inr (fst m)" "snd (always m) = snd m"
  by (simp_all add: succeed_def raise_def always_def split: prod.splits)

lemma generate_structured_log_fields:
  "fst (generate_structured_log sv n text farm_id) =
     [(''farmId'', JStr farm_id), (''activityType'', JStr ''general''),
      (''description'', JStr text),
      (''geoLocation'', JDict [(''lat'', JInt 0), (''lng'', JInt 0)]),
      (''id'', JNull),
      (''timestamp'', JStr (py_replace ''+00:00'' ''Z'' (isoformat (now_utc sv n))))]"
  by (simp add: generate_structured_log_def)

lemma create_log_from_voice_logged:
  assumes "audio_bytes \<noteq> []"
    and "fst (transcribe_audio_with_google st sv audio_bytes lang) = Inr text"
    and "text \<noteq> []"
    and "\<forall>log_data. \<exists>saved. fst (save_log_entry sv farm_id log_data) = Inr saved \<and> truthy saved"
    and "valid_datetime (now_utc sv 1)"
  shows "fst (create_log_from_voice st sv farm_id audio_bytes lang) =
         Inr (Logged
           \<lparr>voice_transcribed_text = text,
            structured_log =
              \<lparr>log_notes = text, log_type = Some ''general'',
               date = Some (strftime_ymd (now_utc sv 1)), crop_name = None,
               summary = Some text, details = Some []\<rparr>\<rparr>)"
proof -
  let ?api_log = "dict_set (fst (generate_structured_log sv 0 text farm_id)) ''timestamp''
      (JStr (py_replace ''+00:00'' ''Z'' (isoformat (now_utc sv 1))))"
  from assms(4) obtain saved
    where saved: "fst (save_log_entry sv farm_id (JDict ?api_log)) = Inr saved" "truthy saved"
    by blast
  have stamp: "dict_get ?api_log ''timestamp'' JNull
      = JStr (py_replace ''+00:00'' ''Z'' (isoformat (now_utc sv 1)))"
    by (simp add: generate_structured_log_fields dict_get_def)
  have description: "dict_get ?api_log ''description'' (JStr []) = JStr text"
    by (simp add: generate_structured_log_fields dict_get_def)
  have activity: "dict_get ?api_log ''activityType'' (JStr []) = JStr ''general''"
    by (simp add: generate_structured_log_fields dict_get_def)
  have no_details: "dict_get ?api_log ''details'' (JDict []) = JDict []"
    by (simp add: generate_structured_log_fields dict_get_def)
  have parsed: "fromisoformat_utc (py_replace ''Z'' ''+00:00''
      (py_replace ''+00:00'' ''Z'' (isoformat (now_utc sv 1)))) = Inr (now_utc sv 1)"
    using fromisoformat_isoformat [OF assms(5)] by (simp add: timestamp_round_trip)
  show ?thesis
    using assms(1,2,3) saved stamp description activity no_details parsed
    by (simp add: create_log_from_voice_def fst_then_do Let_def)
qed


lemma example_transcription:
  "fst (transcribe_audio_with_google example_state example_services [0x4F, 0x67, 0x67, 0x53] ''mr'')
     = Inr ''Applied 50kg of Urea to the paddy crop today''"
  by (simp add: transcribe_audio_with_google_def example_state_def example_services_def)

lemma example_backend_saves:
  "\<forall>log_data. \<exists>saved. fst (save_log_entry example_services ''farm_1'' log_data) = Inr saved
      \<and> truthy saved"
  by (simp add: save_log_entry_def make_api_request_def upper_literals example_services_def)

lemma example_clock:
  "valid_datetime (now_utc example_services 1)"
  "1000 \<le> dt_year (now_utc example_services 1)"
  by (simp_all add: valid_datetime_def days_in_month_def example_services_def)

lemma digit_char_values:
  "digit_char 0 = CHR ''0''" "digit_char 1 = CHR ''1''" "digit_char 2 = CHR ''2''"
  "digit_char 3 = CHR ''3''" "digit_char 4 = CHR ''4''" "digit_char 5 = CHR ''5''"
  "digit_char 6 = CHR ''6''" "digit_char 7 = CHR ''7''" "digit_char 8 = CHR ''8''"
  "digit_char 9 = CHR ''9''"
  by (simp_all add: digit_char_def char_of_def bit_Suc_0_iff)

lemma example_date:
  "strftime_ymd (now_utc example_services 1) = ''2026-11-04''"
  using digit_char_values
  by (simp add: strftime_ymd_def year_text_def digits4_def digits2_def example_services_def)

subsection \<open>Helper facts: requests and translation events\<close>

lemma make_api_request_timeouts:
  "map http_timeout (http_requests (snd (make_api_request sv method endpoint json_data)))
     = (if upper method = ''GET'' \<or> upper method = ''POST'' then [Some 15] else [])"
  by (simp add: make_api_request_def Let_def raise_def split: sum.splits option.splits)

lemma translate_text_invocations:
  "filter is_translate_invocation (snd (translate_text sv text src dest))
     = [Translate_invoked text src dest]"
  by (simp add: translate_text_def Let_def split: sum.splits)

lemma rag_retrieve_invocations:
  "filter is_translate_invocation (snd (rag_retrieve sv query index docs k)) = []"
  by (simp add: rag_retrieve_def embed_texts_def split: sum.splits prod.splits)

lemma analyze_image_invocations:
  "filter is_translate_invocation (snd (analyze_image_with_gemini sv image_bytes)) = []"
  by (simp add: analyze_image_with_gemini_def split: sum.splits)

lemma make_api_request_invocations:
  "filter is_translate_invocation (snd (make_api_request sv method endpoint json_data)) = []"
  by (simp add: make_api_request_def Let_def raise_def split: sum.splits option.splits)

lemma get_user_profile_invocations:
  "filter is_translate_invocation (snd (get_user_profile sv user_id)) = []"
  by (simp add: get_user_profile_def snd_then_do make_api_request_invocations
      split: sum.splits json.splits list.splits)

lemma get_dashboard_predictions_invocations:
  "filter is_translate_invocation (snd (get_dashboard_predictions sv profile weather)) = []"
  by (simp add: get_dashboard_predictions_def Let_def split: sum.splits json.splits)

lemma process_chat_query_invocations:
  "filter is_translate_invocation
     (snd (process_chat_query sv query profile predictions index documents language image_bytes))
     = [Translate_invoked query language ''en'']"
  by (simp add: process_chat_query_def snd_then_do fst_then_do Let_def
      translate_text_invocations rag_retrieve_invocations analyze_image_invocations
      split: sum.splits option.splits)

lemma chat_text_run:
  assumes "fst (get_user_profile sv user_id) = Inr (JDict p)"
    and "p \<noteq> []"
    and "query \<noteq> []"
    and "fetch_weather sv (dict_get p ''village'' (JStr [])) = Inr weather"
    and "fst (get_dashboard_predictions sv (JDict p) weather) = Inr predictions"
    and "loaded_faiss_index st = Some index"
    and "loaded_docs st = Some documents"
    and "fst (process_chat_query sv query (JDict p) predictions index documents ''en'' image_file)
           = Inr english"
  shows "fst (chat_with_assistant st sv user_id (Some query) lang image_file None)
           = Inr \<lparr>response_text = fst (translate_text sv english ''en'' lang),
                  transcribed_text = None\<rparr>"
    and "filter is_translate_invocation
           (snd (chat_with_assistant st sv user_id (Some query) lang image_file None))
           = [Translate_invoked query ''en'' ''en'', Translate_invoked english ''en'' lang]"
  using assms
  by (simp_all add: chat_with_assistant_def fst_then_do snd_then_do Let_def
      get_user_profile_invocations get_dashboard_predictions_invocations
      process_chat_query_invocations translate_text_invocations)


lemma chat_text_success_steps:
  assumes "fst (chat_with_assistant st sv user_id (Some query) lang image_file None) = Inr response"
  shows "\<exists>p weather predictions index documents english.
           fst (get_user_profile sv user_id) = Inr (JDict p) \<and> p \<noteq> [] \<and> query \<noteq> [] \<and>
           fetch_weather sv (dict_get p ''village'' (JStr [])) = Inr weather \<and>
           fst (get_dashboard_predictions sv (JDict p) weather) = Inr predictions \<and>
           loaded_faiss_index st = Some index \<and> loaded_docs st = Some documents \<and>
           fst (process_chat_query sv query (JDict p) predictions index documents ''en'' image_file)
             = Inr english"
proof -
  obtain profile where found: "fst (get_user_profile sv user_id) = Inr profile"
    using assms
    by (cases "fst (get_user_profile sv user_id)")
      (simp_all add: chat_with_assistant_def fst_then_do)
  have present: "truthy profile"
    using assms found
    by (cases "truthy profile") (simp_all add: chat_with_assistant_def fst_then_do)
  obtain p where p: "profile = JDict p"
    using assms found present
    by (cases profile) (simp_all add: chat_with_assistant_def fst_then_do)
  from present p have nonempty: "p \<noteq> []" by simp
  note start = found [unfolded p] nonempty
  have asked: "query \<noteq> []"
    using assms start
    by (cases "query = []") (simp_all add: chat_with_assistant_def fst_then_do)
  obtain weather where weather: "fetch_weather sv (dict_get p ''village'' (JStr [])) = Inr weather"
    using assms start asked
    by (cases "fetch_weather sv (dict_get p ''village'' (JStr []))")
      (simp_all add: chat_with_assistant_def fst_then_do)
  obtain predictions
    where predicted: "fst (get_dashboard_predictions sv (JDict p) weather) = Inr predictions"
    using assms start asked weather
    by (cases "fst (get_dashboard_predictions sv (JDict p) weather)")
      (simp_all add: chat_with_assistant_def fst_then_do)
  obtain index where index: "loaded_faiss_index st = Some index"
    using assms start asked weather predicted
    by (cases "loaded_faiss_index st") (simp_all add: chat_with_assistant_def fst_then_do)
  obtain documents where documents: "loaded_docs st = Some documents"
    using assms start asked weather predicted index
    by (cases "loaded_docs st") (simp_all add: chat_with_assistant_def fst_then_do)
  obtain english where
    "fst (process_chat_query sv query (JDict p) predictions index documents ''en'' image_file)
       = Inr english"
    using assms start asked weather predicted index documents
    by (cases "fst (process_chat_query sv query (JDict p) predictions index documents ''en''
                      image_file)")
      (simp_all add: chat_with_assistant_def fst_then_do)
  with start asked weather predicted index documents show ?thesis by blast
qed

lemma strip_ok: "strip ''ok'' = ''ok''"
  by (simp add: strip_def whitespace_def)

lemma example_profile:
  "get_user_profile example_services ''ramesh_123'' =
     (Inr (JDict [(''primary_crop'', JStr ''Paddy'')]),
      [Http_call \<lparr>http_method = ''GET'',
                  http_url = api_base_url example_services @ ''/api/users/ramesh_123/farms/'',
                  http_json = None, http_timeout = Some 15\<rparr>])"
  by (simp add: get_user_profile_def make_api_request_def upper_literals then_do_def succeed_def
      example_services_def)

lemma example_chat_answer:
  "fst (process_chat_query example_services ''How to manage stem borer in my rice crop?''
          (JDict [(''primary_crop'', JStr ''Paddy'')]) (JDict [(''pest_risk_percent'', JInt 40)])
          () eight_docs ''en'' None) = Inr ''ok''"
  by (simp add: process_chat_query_def fst_then_do example_services_def)

lemma example_chat_run:
  "fst (chat_with_assistant example_state example_services ''ramesh_123''
          (Some ''How to manage stem borer in my rice crop?'') ''hi'' None None)
     = Inr \<lparr>response_text = ''ok'', transcribed_text = None\<rparr>"
  "filter is_translate_invocation
     (snd (chat_with_assistant example_state example_services ''ramesh_123''
             (Some ''How to manage stem borer in my rice crop?'') ''hi'' None None))
     = [Translate_invoked ''How to manage stem borer in my rice crop?'' ''en'' ''en'',
        Translate_invoked ''ok'' ''en'' ''hi'']"
proof -
  have profile: "fst (get_user_profile example_services ''ramesh_123'')
      = Inr (JDict [(''primary_crop'', JStr ''Paddy'')])"
    by (simp add: example_profile)
  have weather: "fetch_weather example_services
      (dict_get [(''primary_crop'', JStr ''Paddy'')] ''village'' (JStr []))
      = Inr (JDict [(''humidity'', JInt 70)])"
    by (simp add: example_services_def)
  have predicted: "fst (get_dashboard_predictions example_services
      (JDict [(''primary_crop'', JStr ''Paddy'')]) (JDict [(''humidity'', JInt 70)]))
      = Inr (JDict [(''pest_risk_percent'', JInt 40)])"
    by (simp add: get_dashboard_predictions_def example_services_def)
  have translated: "fst (translate_text example_services ''ok'' ''en'' ''hi'') = ''ok''"
    by (simp add: translate_text_def example_services_def strip_ok)
  note run = chat_text_run [of example_services "''ramesh_123''" _
      "''How to manage stem borer in my rice crop?''" _ _ example_state "()" eight_docs None
      "''ok''" "''hi''", OF profile _ _ weather predicted _ _ example_chat_answer]
  show "fst (chat_with_assistant example_state example_services ''ramesh_123''
          (Some ''How to manage stem borer in my rice crop?'') ''hi'' None None)
     = Inr \<lparr>response_text = ''ok'', transcribed_text = None\<rparr>"
    using run(1) translated by (simp add: example_state_def)
  show "filter is_translate_invocation
     (snd (chat_with_assistant example_state example_services ''ramesh_123''
             (Some ''How to manage stem borer in my rice crop?'') ''hi'' None None))
     = [Translate_invoked ''How to manage stem borer in my rice crop?'' ''en'' ''en'',
        Translate_invoked ''ok'' ''en'' ''hi'']"
    using run(2) by (simp add: example_state_def)
qed

subsection \<open>Helper facts: the rejections of the two endpoints\<close>

lemma missing_input_rejections:
  "(fst (get_user_profile sv user_id) = Inr profile \<and> \<not> truthy profile \<longrightarrow>
      chat_with_assistant st sv user_id text_query lang image_file audio_file
        = (Inl (HTTPException 404 ''User profile not found.''), snd (get_user_profile sv user_id))) \<and>
   (fst (get_user_profile sv user_id) = Inr (JDict p) \<and> p \<noteq> [] \<and>
    (text_query = None \<or> text_query = Some []) \<longrightarrow>
      chat_with_assistant st sv user_id text_query lang image_file None
        = (Inl (HTTPException 400 ''No query provided.''), snd (get_user_profile sv user_id))) \<and>
   create_log_from_voice st sv farm_id [] lang = (Inr (Skipped ''Empty audio file''), []) \<and>
   (audio_bytes \<noteq> [] \<and> fst (transcribe_audio_with_google st sv audio_bytes lang) = Inr [] \<longrightarrow>
      create_log_from_voice st sv farm_id audio_bytes lang
        = (Inr (Skipped ''No transcription result''),
           snd (transcribe_audio_with_google st sv audio_bytes lang)))"
proof (intro conjI impI)
  assume "fst (get_user_profile sv user_id) = Inr profile \<and> \<not> truthy profile"
  then show "chat_with_assistant st sv user_id text_query lang image_file audio_file
        = (Inl (HTTPException 404 ''User profile not found.''), snd (get_user_profile sv user_id))"
    by (intro prod_eqI) (simp_all add: chat_with_assistant_def fst_then_do snd_then_do)
next
  assume "fst (get_user_profile sv user_id) = Inr (JDict p) \<and> p \<noteq> [] \<and>
    (text_query = None \<or> text_query = Some [])"
  then show "chat_with_assistant st sv user_id text_query lang image_file None
        = (Inl (HTTPException 400 ''No query provided.''), snd (get_user_profile sv user_id))"
    by (intro prod_eqI) (auto simp: chat_with_assistant_def fst_then_do snd_then_do)
next
  show "create_log_from_voice st sv farm_id [] lang = (Inr (Skipped ''Empty audio file''), [])"
    by (simp add: create_log_from_voice_def succeed_def)
next
  assume "audio_bytes \<noteq> [] \<and> fst (transcribe_audio_with_google st sv audio_bytes lang) = Inr []"
  then show "create_log_from_voice st sv farm_id audio_bytes lang
        = (Inr (Skipped ''No transcription result''),
           snd (transcribe_audio_with_google st sv audio_bytes lang))"
    by (intro prod_eqI) (simp_all add: create_log_from_voice_def fst_then_do snd_then_do)
qed

subsection \<open>Helper facts: a recording without speech\<close>

lemma silent_hindi_profile:
  "fst (get_user_profile silent_hindi_services ''ramesh_123'')
     = Inr (JDict [(''preferredLanguage'', JStr ''hi'')])"
  by (simp add: get_user_profile_def make_api_request_def upper_literals fst_then_do
      silent_hindi_services_def silent_services_def example_services_def)

lemma silent_transcriptions:
  "fst (transcribe_audio_with_google example_state silent_hindi_services
          [0x4F, 0x67, 0x67, 0x53] ''hi'') = Inr []"
  "fst (transcribe_audio_with_google example_state
          silent_services
          [0x4F, 0x67, 0x67, 0x53] ''en'') = Inr []"
  by (simp_all add: transcribe_audio_with_google_def example_state_def
      silent_hindi_services_def silent_services_def example_services_def)

lemma silent_profile:
  "fst (get_user_profile silent_services ''ramesh_123'')
     = Inr (JDict [(''primary_crop'', JStr ''Paddy'')])"
  by (simp add: get_user_profile_def make_api_request_def upper_literals fst_then_do
      silent_services_def example_services_def)

lemma transcribe_audio_invocations:
  "filter is_translate_invocation (snd (transcribe_audio_with_google st sv audio_bytes lang)) = []"
  by (simp add: transcribe_audio_with_google_def raise_def Let_def split: sum.splits list.splits)

lemma silent_first_translation:
  "fst (translate_text silent_hindi_services [] ''hi'' ''en'') = ''ok''"
  by (simp add: translate_text_def silent_hindi_services_def silent_services_def example_services_def strip_ok)

lemma silent_predictions:
  "fst (get_dashboard_predictions silent_hindi_services
          (JDict [(''preferredLanguage'', JStr ''hi'')]) (JDict [(''humidity'', JInt 70)]))
     = Inr (JDict [(''pest_risk_percent'', JInt 40)])"
  by (simp add: get_dashboard_predictions_def silent_hindi_services_def silent_services_def example_services_def)

lemma silent_chat_answer:
  "fst (process_chat_query silent_hindi_services ''ok''
          (JDict [(''preferredLanguage'', JStr ''hi'')]) (JDict [(''pest_risk_percent'', JInt 40)])
          () eight_docs ''en'' None) = Inr ''ok''"
  by (simp add: process_chat_query_def fst_then_do silent_hindi_services_def silent_services_def example_services_def)

subsection \<open>The Language Normalizer\<close>

text \<open>
  C2. For every text and every language pair with \<open>src = dest\<close>, \<open>translate_text\<close> returns
  the text unchanged and issues no call to a generative model: the only event is the
  entry into the function itself.
\<close>

theorem translate_same_language_identity:
  "fst (translate_text sv text lang lang) = text \<and>
   filter is_generative_call (snd (translate_text sv text lang lang)) = [] \<and>
   snd (translate_text sv text lang lang) = [Translate_invoked text lang lang]"
  by (simp add: translate_text_def)

subsection \<open>The Context Retriever\<close>



text \<open>
  C5. Whenever the embedding call raises, or the embedding succeeds and the search raises,
  \<open>rag_retrieve\<close> returns a string, the fixed text of its handler, which begins with the
  marker \<^verbatim>\<open>Error\<close>; \<open>embed_texts\<close> itself passes the exception on to that handler.
\<close>

theorem rag_retrieve_failure_returns_error_string:
  assumes "embed_content sv [query] = Inl e \<or>
           (\<exists>qe. embed_content sv [query] = Inr qe \<and> index_search sv index qe k = Inl e)"
  shows "fst (rag_retrieve sv query index docs k) = ''Error: Could not retrieve relevant context.'' \<and>
         take 5 (fst (rag_retrieve sv query index docs k)) = ''Error'' \<and>
         (embed_content sv [query] = Inl e \<longrightarrow>
            fst (embed_texts sv [query]) = Inl (ServiceError e))"
  using assms
  by (auto simp: rag_retrieve_def embed_texts_def rag_error_text_def)

theorem rag_retrieve_failure_witness:
  "embed_content failing_services [''stem borer''] = Inl ''503 unavailable'' \<and>
   fst (rag_retrieve failing_services ''stem borer'' () eight_docs 3)
     = ''Error: Could not retrieve relevant context.'' \<and>
   fst (embed_texts failing_services [''stem borer'']) = Inl (ServiceError ''503 unavailable'')"
proof -
  have down: "embed_content failing_services [''stem borer''] = Inl ''503 unavailable''"
    by (simp add: failing_services_def)
  then have "embed_content failing_services [''stem borer''] = Inl ''503 unavailable'' \<or>
      (\<exists>qe. embed_content failing_services [''stem borer''] = Inr qe \<and>
         index_search failing_services () qe 3 = Inl ''503 unavailable'')"
    by simp
  from rag_retrieve_failure_returns_error_string [OF this, of eight_docs] down
  show ?thesis by simp
qed

text \<open>
  C10. When the search returns the sentinel position \<open>-1\<close> (with every position at least
  \<open>-1\<close>, as FAISS pads a row) and \<open>docs\<close> is not empty, the guard \<open>i < len(docs)\<close> lets the
  sentinel pass, Python's indexing reads the last document there, and the returned context
  contains the last document.
\<close>

theorem rag_retrieve_sentinel_returns_last_document:
  assumes "embed_content sv [query] = Inr qe"
    and "index_search sv index qe k = Inr (row # others)"
    and "- 1 \<in> set row"
    and "docs \<noteq> []"
    and "\<forall>i\<in>set row. - 1 \<le> i"
  shows "(- 1 :: int) < int (length docs) \<and>
         py_index docs (- 1) = Inr (last docs) \<and>
         (\<exists>found. relevant_docs docs row = Inr found \<and> last docs \<in> set found \<and>
            fst (rag_retrieve sv query index docs k) = py_join context_separator found) \<and>
         (\<exists>before after.
            fst (rag_retrieve sv query index docs k) = before @ last docs @ after)"
proof -
  from assms(4,5) have "\<forall>i\<in>set row. - int (length docs) \<le> i"
    by (cases docs) auto
  then obtain found where picked: "relevant_docs docs row = Inr found"
    using relevant_docs_total by blast
  have included: "last docs \<in> set found"
    using relevant_docs_sentinel [OF picked assms(3,4)] .
  have result: "fst (rag_retrieve sv query index docs k) = py_join context_separator found"
    using rag_retrieve_success [OF assms(1,2) picked] .
  from py_join_contains [OF included, of context_separator] result
  have "\<exists>before after. fst (rag_retrieve sv query index docs k) = before @ last docs @ after"
    by simp
  moreover have "(- 1 :: int) < int (length docs)" by simp
  moreover have "py_index docs (- 1) = Inr (last docs)"
    using py_index_minus_one [OF assms(4)] .
  ultimately show ?thesis using picked included result by blast
qed

theorem rag_retrieve_sentinel_witness:
  "embed_content (example_services\<lparr>index_search := (\<lambda>index v k. Inr [[1, 0, - 1]])\<rparr>) [''q''] = Inr () \<and>
   index_search (example_services\<lparr>index_search := (\<lambda>index v k. Inr [[1, 0, - 1]])\<rparr>) () () 3
     = Inr ([1, 0, - 1] # []) \<and>
   - 1 \<in> set [1, 0, - 1 :: int] \<and> [''a'', ''b''] \<noteq> [] \<and>
   (\<exists>before after.
      fst (rag_retrieve (example_services\<lparr>index_search := (\<lambda>index v k. Inr [[1, 0, - 1]])\<rparr>)
             ''q'' () [''a'', ''b''] 3) = before @ last [''a'', ''b''] @ after) \<and>
   fst (rag_retrieve (example_services\<lparr>index_search := (\<lambda>index v k. Inr [[1, 0, - 1]])\<rparr>)
          ''q'' () [''a'', ''b''] 3) = ''b'' @ context_separator @ ''a'' @ context_separator @ ''b''"
proof -
  let ?sv = "example_services\<lparr>index_search := (\<lambda>index v k. Inr [[1, 0, - 1]])\<rparr>"
  have embedded: "embed_content ?sv [''q''] = Inr ()"
    by (simp add: example_services_def)
  have searched: "index_search ?sv () () 3 = Inr ([1, 0, - 1] # [])" by simp
  have sentinel: "- 1 \<in> set [1, 0, - 1 :: int]" by simp
  have nonempty: "[''a'', ''b''] \<noteq> []" by simp
  have bounded: "\<forall>i\<in>set [1, 0, - 1 :: int]. - 1 \<le> i" by simp
  have computed: "fst (rag_retrieve ?sv ''q'' () [''a'', ''b''] 3)
      = ''b'' @ context_separator @ ''a'' @ context_separator @ ''b''"
    by (simp add: rag_retrieve_def example_services_def embed_texts_def py_index_def)
  from rag_retrieve_sentinel_returns_last_document
         [OF embedded searched sentinel nonempty bounded]
  have "\<exists>before after.
      fst (rag_retrieve ?sv ''q'' () [''a'', ''b''] 3) = before @ last [''a'', ''b''] @ after"
    by blast
  with embedded searched sentinel nonempty computed show ?thesis by blast
qed

subsection \<open>The Language Normalizer: failure\<close>

text \<open>
  C6. For \<open>src \<noteq> dest\<close>, when the call to the translation model raises, \<open>translate_text\<close>
  returns the sentinel \<^verbatim>\<open>Translation Error\<close>; the exception does not reach the caller.
\<close>

theorem translate_failure_returns_sentinel:
  assumes "src \<noteq> dest"
    and "translation_model sv
           (translation_prompt (dict_get SUPPORTED_LANGUAGES src src)
              (dict_get SUPPORTED_LANGUAGES dest dest) text) = Inl e"
  shows "fst (translate_text sv text src dest) = ''Translation Error''"
  using assms by (simp add: translate_text_def)

theorem translate_failure_witness:
  "''en'' \<noteq> ''hi'' \<and>
   translation_model failing_services
     (translation_prompt (dict_get SUPPORTED_LANGUAGES ''en'' ''en'')
        (dict_get SUPPORTED_LANGUAGES ''hi'' ''hi'') ''Use neem oil.'') = Inl ''503 unavailable'' \<and>
   fst (translate_text failing_services ''Use neem oil.'' ''en'' ''hi'') = ''Translation Error''"
proof -
  have different: "''en'' \<noteq> ''hi''" by simp
  have down: "translation_model failing_services
     (translation_prompt (dict_get SUPPORTED_LANGUAGES ''en'' ''en'')
        (dict_get SUPPORTED_LANGUAGES ''hi'' ''hi'') ''Use neem oil.'') = Inl ''503 unavailable''"
    by (simp add: failing_services_def)
  from translate_failure_returns_sentinel [OF different down] different down
  show ?thesis by simp
qed

subsection \<open>The Multimodal Analyzer\<close>

text \<open>
  C7. When decoding the image raises, or the decoding succeeds and the multimodal call
  raises, \<open>analyze_image_with_gemini\<close> returns the fixed fallback text.
\<close>

theorem analyze_image_failure_returns_fallback:
  assumes "image_open sv image_bytes = Inl e \<or>
           (\<exists>img. image_open sv image_bytes = Inr img \<and>
              llm_model_image sv image_prompt img = Inl e)"
  shows "fst (analyze_image_with_gemini sv image_bytes) = ''Could not analyze the uploaded image.''"
  using assms
  by (auto simp: analyze_image_with_gemini_def image_fallback_def)

theorem analyze_image_failure_witness:
  "image_open (failing_services\<lparr>image_open := (\<lambda>b. Inr ())\<rparr>) [0xFF, 0xD8] = Inr () \<and>
   llm_model_image (failing_services\<lparr>image_open := (\<lambda>b. Inr ())\<rparr>) image_prompt ()
     = Inl ''503 unavailable'' \<and>
   fst (analyze_image_with_gemini (failing_services\<lparr>image_open := (\<lambda>b. Inr ())\<rparr>) [0xFF, 0xD8])
     = ''Could not analyze the uploaded image.''"
proof -
  let ?sv = "failing_services\<lparr>image_open := (\<lambda>b. Inr ())\<rparr>"
  have opened: "image_open ?sv [0xFF, 0xD8] = Inr ()" by simp
  have down: "llm_model_image ?sv image_prompt () = Inl ''503 unavailable''"
    by (simp add: failing_services_def)
  then have "image_open ?sv [0xFF, 0xD8] = Inl ''503 unavailable'' \<or>
      (\<exists>img. image_open ?sv [0xFF, 0xD8] = Inr img \<and>
         llm_model_image ?sv image_prompt img = Inl ''503 unavailable'')"
    by simp
  from analyze_image_failure_returns_fallback [OF this] opened down
  show ?thesis by simp
qed

subsection \<open>The structured voice log\<close>

text \<open>
  C4. The claim is that notes without a date, such as \<^verbatim>\<open>Applied 50kg of Urea to the paddy
  crop today\<close> for a farm whose primary crop is Paddy, give a record with \<open>log_type\<close>
  populated, \<open>crop_name\<close> equal to \<^verbatim>\<open>Paddy\<close>, \<open>date\<close> the current date and \<open>details\<close> a map.
  On exactly this input, with the clock at 4 November 2026, \<open>create_log_from_voice\<close>
  returns the record below: the type, the date and the (empty) map are there, the crop name
  is not.
\<close>

theorem voice_log_of_paddy_notes_has_no_crop_name:
  "fst (get_user_profile example_services ''ramesh_123'')
     = Inr (JDict [(''primary_crop'', JStr ''Paddy'')]) \<and>
   fst (transcribe_audio_with_google example_state example_services [0x4F, 0x67, 0x67, 0x53] ''mr'')
     = Inr ''Applied 50kg of Urea to the paddy crop today'' \<and>
   fst (create_log_from_voice example_state example_services ''farm_1''
          [0x4F, 0x67, 0x67, 0x53] ''mr'')
     = Inr (Logged
         \<lparr>voice_transcribed_text = ''Applied 50kg of Urea to the paddy crop today'',
          structured_log =
            \<lparr>log_notes = ''Applied 50kg of Urea to the paddy crop today'',
             log_type = Some ''general'', date = Some ''2026-11-04'', crop_name = None,
             summary = Some ''Applied 50kg of Urea to the paddy crop today'',
             details = Some []\<rparr>\<rparr>)"
proof -
  have audio: "[0x4F, 0x67, 0x67, 0x53] \<noteq> ([] :: bytes)" by simp
  have spoken: "''Applied 50kg of Urea to the paddy crop today'' \<noteq> []" by simp
  from create_log_from_voice_logged
         [OF audio example_transcription spoken example_backend_saves example_clock(1)]
  show ?thesis
    using example_transcription example_date by (simp add: example_profile)
qed

subsection \<open>The chat endpoint\<close>

text \<open>
  C3, as the code has it. Whenever \<open>chat_with_assistant\<close> answers a text query with
  \<open>language_code\<close> \<^verbatim>\<open>hi\<close> and no audio, \<open>translate_text\<close> is entered exactly twice: first by
  \<open>process_chat_query\<close> on the query with source and destination both \<^verbatim>\<open>en\<close>, which
  returns the query as it is without a call to the model, then on the English answer from
  \<^verbatim>\<open>en\<close> to \<^verbatim>\<open>hi\<close>. The final text is the result of that second entry: the trimmed
  reply of the translation model, or \<^verbatim>\<open>Translation Error\<close> when the model raises. Nothing
  makes it differ from the English answer.
\<close>

theorem chat_hindi_text_query_invokes_normalizer_twice:
  assumes "fst (chat_with_assistant st sv user_id (Some query) ''hi'' image_file None)
             = Inr response"
  shows "\<exists>profile predictions index documents english.
           fst (process_chat_query sv query profile predictions index documents ''en'' image_file)
             = Inr english \<and>
           filter is_translate_invocation
             (snd (chat_with_assistant st sv user_id (Some query) ''hi'' image_file None))
             = [Translate_invoked query ''en'' ''en'', Translate_invoked english ''en'' ''hi''] \<and>
           translate_text sv query ''en'' ''en'' = (query, [Translate_invoked query ''en'' ''en'']) \<and>
           response_text response = fst (translate_text sv english ''en'' ''hi'') \<and>
           response_text response =
             (case translation_model sv (translation_prompt ''English'' ''Hindi'' english) of
                Inr reply \<Rightarrow> strip reply
              | Inl e \<Rightarrow> ''Translation Error'') \<and>
           transcribed_text response = None"
proof -
  from chat_text_success_steps [OF assms]
  obtain p weather predictions index documents english where steps:
    "fst (get_user_profile sv user_id) = Inr (JDict p)" "p \<noteq> []" "query \<noteq> []"
    "fetch_weather sv (dict_get p ''village'' (JStr [])) = Inr weather"
    "fst (get_dashboard_predictions sv (JDict p) weather) = Inr predictions"
    "loaded_faiss_index st = Some index" "loaded_docs st = Some documents"
    "fst (process_chat_query sv query (JDict p) predictions index documents ''en'' image_file)
       = Inr english"
    by blast
  note run = chat_text_run [OF steps, of "''hi''"]
  from run(1) assms
  have answer: "response = \<lparr>response_text = fst (translate_text sv english ''en'' ''hi''),
                              transcribed_text = None\<rparr>"
    by simp
  have first: "translate_text sv query ''en'' ''en'' = (query, [Translate_invoked query ''en'' ''en''])"
    by (simp add: translate_text_def)
  have final: "fst (translate_text sv english ''en'' ''hi'') =
      (case translation_model sv (translation_prompt ''English'' ''Hindi'' english) of
         Inr reply \<Rightarrow> strip reply
       | Inl e \<Rightarrow> ''Translation Error'')"
    by (simp add: translate_text_def dict_get_def SUPPORTED_LANGUAGES_def split: sum.splits)
  from steps(8) run(2) first answer final show ?thesis
    by (intro exI [of _ "JDict p"] exI [of _ predictions] exI [of _ index] exI [of _ documents]
        exI [of _ english]) simp
qed

theorem chat_hindi_witness:
  "fst (chat_with_assistant example_state example_services ''ramesh_123''
          (Some ''How to manage stem borer in my rice crop?'') ''hi'' None None)
     = Inr \<lparr>response_text = ''ok'', transcribed_text = None\<rparr> \<and>
   (\<exists>english.
      filter is_translate_invocation
        (snd (chat_with_assistant example_state example_services ''ramesh_123''
                (Some ''How to manage stem borer in my rice crop?'') ''hi'' None None))
        = [Translate_invoked ''How to manage stem borer in my rice crop?'' ''en'' ''en'',
           Translate_invoked english ''en'' ''hi''] \<and>
      ''ok'' = fst (translate_text example_services english ''en'' ''hi''))"
proof -
  from chat_hindi_text_query_invokes_normalizer_twice [OF example_chat_run(1)]
  obtain english where
    "filter is_translate_invocation
        (snd (chat_with_assistant example_state example_services ''ramesh_123''
                (Some ''How to manage stem borer in my rice crop?'') ''hi'' None None))
        = [Translate_invoked ''How to manage stem borer in my rice crop?'' ''en'' ''en'',
           Translate_invoked english ''en'' ''hi'']"
    "''ok'' = fst (translate_text example_services english ''en'' ''hi'')"
    by auto
  with example_chat_run(1) show ?thesis by blast
qed

text \<open>
  The claim as stated fails where the translation model answers with the text of the
  English answer: the final text then equals the intermediate answer.
\<close>

theorem chat_hindi_answer_unchanged_counterexample:
  "fst (process_chat_query example_services ''How to manage stem borer in my rice crop?''
          (JDict [(''primary_crop'', JStr ''Paddy'')]) (JDict [(''pest_risk_percent'', JInt 40)])
          () eight_docs ''en'' None) = Inr ''ok'' \<and>
   fst (chat_with_assistant example_state example_services ''ramesh_123''
          (Some ''How to manage stem borer in my rice crop?'') ''hi'' None None)
     = Inr \<lparr>response_text = ''ok'', transcribed_text = None\<rparr> \<and>
   filter is_translate_invocation
     (snd (chat_with_assistant example_state example_services ''ramesh_123''
             (Some ''How to manage stem borer in my rice crop?'') ''hi'' None None))
     = [Translate_invoked ''How to manage stem borer in my rice crop?'' ''en'' ''en'',
        Translate_invoked ''ok'' ''en'' ''hi'']"
  using example_chat_answer example_chat_run by simp

subsection \<open>Outbound HTTP calls\<close>

text \<open>
  C8. The claim is that every outbound plain-HTTP call carries a timeout of about 15
  seconds. The requests of \<^verbatim>\<open>crud.py\<close> (the profile lookup and the saving of a log) do,
  whatever the backend answers; the one request of \<open>get_proactive_alerts\<close>, sent for any
  user, carries no timeout at all.
\<close>

theorem alerts_request_has_no_timeout:
  "map http_timeout (http_requests (snd (get_proactive_alerts sv user_id))) = [None] \<and>
   map http_timeout (http_requests (snd (get_user_profile sv user_id))) = [Some 15] \<and>
   map http_timeout (http_requests (snd (save_log_entry sv farm_id log_data))) = [Some 15]"
proof (intro conjI)
  show "map http_timeout (http_requests (snd (get_proactive_alerts sv user_id))) = [None]"
    by (simp add: get_proactive_alerts_def Let_def split: sum.splits option.splits)
  have "upper ''GET'' = ''GET''" by (simp add: upper.simps upper_two_def upper_three_def upper_char_def)
  then show "map http_timeout (http_requests (snd (get_user_profile sv user_id))) = [Some 15]"
    using make_api_request_timeouts [of sv "''GET''"]
    by (simp add: get_user_profile_def snd_then_do split: sum.splits json.splits list.splits)
  have "upper ''POST'' = ''POST''" by (simp add: upper.simps upper_two_def upper_three_def upper_char_def)
  then show "map http_timeout (http_requests (snd (save_log_entry sv farm_id log_data))) = [Some 15]"
    using make_api_request_timeouts [of sv "''POST''"]
    by (simp add: save_log_entry_def)
qed

subsection \<open>Missing input\<close>

text \<open>
  C9. The claim is that missing input (no query text, empty audio, no profile) is refused
  explicitly, with a reason, by the chat endpoint and by the voice-log endpoint. It fails in
  the chat endpoint for a recording without speech when the profile prefers a language other
  than English: the transcript is empty, yet it is sent to the translation model, whose
  reply (\<^verbatim>\<open>ok\<close> here), or the sentinel \<^verbatim>\<open>Translation Error\<close> when the model is out of
  reach, becomes the query, and the endpoint answers instead of refusing. The same recording
  is refused with status 400 when the profile is in English, and with the reason
  \<^verbatim>\<open>No transcription result\<close> by the voice-log endpoint, which tests the transcript itself.
\<close>

theorem chat_answers_silent_hindi_audio:
  "fst (get_user_profile silent_hindi_services ''ramesh_123'')
     = Inr (JDict [(''preferredLanguage'', JStr ''hi'')]) \<and>
   fst (transcribe_audio_with_google example_state silent_hindi_services
          [0x4F, 0x67, 0x67, 0x53] ''hi'') = Inr [] \<and>
   fst (chat_with_assistant example_state silent_hindi_services ''ramesh_123'' None ''hi'' None
          (Some [0x4F, 0x67, 0x67, 0x53]))
     = Inr \<lparr>response_text = ''ok'', transcribed_text = Some []\<rparr> \<and>
   filter is_translate_invocation
     (snd (chat_with_assistant example_state silent_hindi_services ''ramesh_123'' None ''hi'' None
             (Some [0x4F, 0x67, 0x67, 0x53])))
     = [Translate_invoked [] ''hi'' ''en'', Translate_invoked ''ok'' ''en'' ''en'',
        Translate_invoked ''ok'' ''en'' ''hi''] \<and>
   fst (chat_with_assistant example_state
          (silent_hindi_services\<lparr>translation_model := (\<lambda>prompt. Inl ''503 unavailable'')\<rparr>)
          ''ramesh_123'' None ''hi'' None (Some [0x4F, 0x67, 0x67, 0x53]))
     = Inr \<lparr>response_text = ''Translation Error'', transcribed_text = Some []\<rparr> \<and>
   fst (chat_with_assistant example_state
          silent_services
          ''ramesh_123'' None ''hi'' None (Some [0x4F, 0x67, 0x67, 0x53]))
     = Inl (HTTPException 400 ''No query provided.'') \<and>
   fst (create_log_from_voice example_state silent_hindi_services ''farm_1''
          [0x4F, 0x67, 0x67, 0x53] ''hi'')
     = Inr (Skipped ''No transcription result'')"
proof (intro conjI)
  show "fst (get_user_profile silent_hindi_services ''ramesh_123'')
     = Inr (JDict [(''preferredLanguage'', JStr ''hi'')])"
    by (rule silent_hindi_profile)
  show "fst (transcribe_audio_with_google example_state silent_hindi_services
          [0x4F, 0x67, 0x67, 0x53] ''hi'') = Inr []"
    by (rule silent_transcriptions)
  have services: "translation_model silent_hindi_services = (\<lambda>prompt. Inr ''ok'')"
    "llm_model silent_hindi_services = (\<lambda>prompt. Inr ''ok'')"
    "fetch_weather silent_hindi_services = (\<lambda>village. Inr (JDict [(''humidity'', JInt 70)]))"
    "structured_llm silent_hindi_services = (\<lambda>prompt. Inr (JDict [(''pest_risk_percent'', JInt 40)]))"
    "embed_content silent_hindi_services = (\<lambda>texts. Inr ())"
    "index_search silent_hindi_services = (\<lambda>index v k. Inr [[9, 2, 8]])"
    by (simp_all add: silent_hindi_services_def silent_services_def example_services_def)
  have state: "loaded_faiss_index example_state = Some ()"
    "loaded_docs example_state = Some eight_docs"
    by (simp_all add: example_state_def)
  show "fst (chat_with_assistant example_state silent_hindi_services ''ramesh_123'' None ''hi'' None
          (Some [0x4F, 0x67, 0x67, 0x53]))
     = Inr \<lparr>response_text = ''ok'', transcribed_text = Some []\<rparr>"
    using silent_hindi_profile silent_transcriptions(1)
    by (simp add: chat_with_assistant_def fst_then_do Let_def dict_get_def py_str_def
        translate_text_def SUPPORTED_LANGUAGES_def services state strip_ok
        get_dashboard_predictions_def process_chat_query_def)
  show "filter is_translate_invocation
     (snd (chat_with_assistant example_state silent_hindi_services ''ramesh_123'' None ''hi'' None
             (Some [0x4F, 0x67, 0x67, 0x53])))
     = [Translate_invoked [] ''hi'' ''en'', Translate_invoked ''ok'' ''en'' ''en'',
        Translate_invoked ''ok'' ''en'' ''hi'']"
    using silent_hindi_profile silent_transcriptions(1) silent_predictions silent_chat_answer
    by (simp add: chat_with_assistant_def fst_then_do snd_then_do Let_def dict_get_def py_str_def
        services state get_user_profile_invocations get_dashboard_predictions_invocations
        process_chat_query_invocations translate_text_invocations
        transcribe_audio_invocations silent_first_translation)
  show "fst (chat_with_assistant example_state
          (silent_hindi_services\<lparr>translation_model := (\<lambda>prompt. Inl ''503 unavailable'')\<rparr>)
          ''ramesh_123'' None ''hi'' None (Some [0x4F, 0x67, 0x67, 0x53]))
     = Inr \<lparr>response_text = ''Translation Error'', transcribed_text = Some []\<rparr>"
    using silent_hindi_profile silent_transcriptions(1)
    by (simp add: chat_with_assistant_def fst_then_do Let_def dict_get_def py_str_def
        translate_text_def SUPPORTED_LANGUAGES_def state get_user_profile_def
        make_api_request_def upper_literals transcribe_audio_with_google_def
        get_dashboard_predictions_def process_chat_query_def rag_retrieve_def embed_texts_def
        py_index_def eight_docs_def silent_hindi_services_def silent_services_def example_services_def
        example_state_def)
  show "fst (chat_with_assistant example_state
          silent_services
          ''ramesh_123'' None ''hi'' None (Some [0x4F, 0x67, 0x67, 0x53]))
     = Inl (HTTPException 400 ''No query provided.'')"
    using silent_transcriptions(2) silent_profile
    by (simp add: chat_with_assistant_def fst_then_do Let_def dict_get_def py_str_def
        translate_text_def)
  show "fst (create_log_from_voice example_state silent_hindi_services ''farm_1''
          [0x4F, 0x67, 0x67, 0x53] ''hi'')
     = Inr (Skipped ''No transcription result'')"
    using silent_transcriptions(1)
    by (simp add: create_log_from_voice_def fst_then_do)
qed

end
